theory Spec2Isabelle
  imports Main
begin

section \<open>Python values and string operations used by \<open>asks/request.py\<close>\<close>

text \<open>
  Strings are ASCII text, modelled as \<open>string\<close> (a list of bytes); \<open>bytes(s, self.encoding)\<close>,
  which the multipart encoder and line 183 call with the codec name the session gave the
  request, is then the identity, and \<open>len\<close> of a \<open>str\<close> and of its encoding agree. The
  \<open>query.encode(self.encoding)\<close> of \<open>_queryify\<close> is modelled with its codec, see \<open>py_encode\<close>.
  Text outside ASCII and floating point numbers are outside the model.
\<close>

datatype error =
    TooManyRedirects
  | KeyError
  | AttributeError
  | TypeError
  | ValueError
  | OSError
  | AssertionError
  | LookupError
  | UnicodeEncodeError
  | NoMoreData   \<comment> \<open>the transport has nothing further to deliver: \<open>recv\<close> never completes\<close>
  | OutOfFuel    \<comment> \<open>the model's recursion bound was reached\<close>

text \<open>Scalars, and the values a \<open>data\<close>/\<open>params\<close>/\<open>files\<close>/\<open>json\<close> mapping holds.\<close>

datatype atom = ANone | ABool bool | AInt int | AStr string

datatype pyvalue = Atom atom | PList "atom list" | PMap "(string \<times> atom) list"

text \<open>What a \<open>data\<close>, \<open>params\<close>, \<open>files\<close> or \<open>json\<close> argument is: absent, a literal, or a dict
  (an association list: Python dicts iterate in insertion order).\<close>

datatype pyarg = PNone | PStr string | PDict "(string \<times> pyvalue) list"

fun atom_truthy :: "atom \<Rightarrow> bool" where
  "atom_truthy ANone = False"
| "atom_truthy (ABool b) = b"
| "atom_truthy (AInt i) = (i \<noteq> 0)"
| "atom_truthy (AStr s) = (s \<noteq> [])"

fun truthy :: "pyvalue \<Rightarrow> bool" where
  "truthy (Atom a) = atom_truthy a"
| "truthy (PList xs) = (xs \<noteq> [])"
| "truthy (PMap kvs) = (kvs \<noteq> [])"

fun arg_truthy :: "pyarg \<Rightarrow> bool" where
  "arg_truthy PNone = False"
| "arg_truthy (PStr s) = (s \<noteq> [])"
| "arg_truthy (PDict kvs) = (kvs \<noteq> [])"

fun digits :: "nat \<Rightarrow> string" where
  "digits n = (if n < 10 then [''0123456789'' ! n]
               else digits (n div 10) @ [''0123456789'' ! (n mod 10)])"

declare digits.simps [simp del]

definition str_int :: "int \<Rightarrow> string" where
  "str_int i = (if i < 0 then CHR ''-'' # digits (nat (- i)) else digits (nat i))"

text \<open>\<open>str(v)\<close> of a scalar.\<close>

fun py_str :: "atom \<Rightarrow> string" where
  "py_str ANone = ''None''"
| "py_str (ABool b) = (if b then ''True'' else ''False'')"
| "py_str (AInt i) = str_int i"
| "py_str (AStr s) = s"

text \<open>\<open>str.isspace\<close> on ASCII: tab, LF, VT, FF, CR, FS, GS, RS, US and space.\<close>

definition py_isspace :: "char \<Rightarrow> bool" where
  "py_isspace c = (of_char c \<in> {9::nat, 10, 11, 12, 13, 28, 29, 30, 31, 32})"

text \<open>The ASCII characters: the code points below 128.\<close>

definition is_ascii :: "char \<Rightarrow> bool" where
  "is_ascii c = ((of_char c :: nat) < 128)"

text \<open>\<open>s.split()\<close>: the maximal runs of non-whitespace, in order.\<close>

fun split_ws :: "string \<Rightarrow> string \<Rightarrow> string list" where
  "split_ws [] cur = (if cur = [] then [] else [cur])"
| "split_ws (c # cs) cur =
     (if py_isspace c then (if cur = [] then split_ws cs [] else cur # split_ws cs [])
      else split_ws cs (cur @ [c]))"

definition py_split :: "string \<Rightarrow> string list" where
  "py_split s = split_ws s []"

text \<open>\<open>sep.join(xs)\<close>.\<close>

fun py_join :: "string \<Rightarrow> string list \<Rightarrow> string" where
  "py_join sep [] = []"
| "py_join sep [x] = x"
| "py_join sep (x # y # ys) = x @ sep @ py_join sep (y # ys)"

text \<open>\<open>s.split(c)\<close> for a one-character separator: never the empty list.\<close>

fun split_on :: "char \<Rightarrow> string \<Rightarrow> string \<Rightarrow> string list" where
  "split_on sep [] cur = [cur]"
| "split_on sep (c # cs) cur =
     (if c = sep then cur # split_on sep cs [] else split_on sep cs (cur @ [c]))"

definition py_split_on :: "char \<Rightarrow> string \<Rightarrow> string list" where
  "py_split_on sep s = split_on sep s []"

definition py_strip :: "string \<Rightarrow> string" where
  "py_strip s = rev (dropWhile py_isspace (rev (dropWhile py_isspace s)))"

text \<open>The lower-case letter of an upper-case ASCII letter (code 65 to 90) is 32 further on:
  the same bits with bit 5 set.\<close>

definition lower_char :: "char \<Rightarrow> char" where
  "lower_char c =
     (if 65 \<le> (of_char c :: nat) \<and> (of_char c :: nat) \<le> 90
      then (case c of Char b0 b1 b2 b3 b4 b5 b6 b7 \<Rightarrow> Char b0 b1 b2 b3 b4 True b6 b7)
      else c)"

definition py_lower :: "string \<Rightarrow> string" where
  "py_lower s = map lower_char s"

text \<open>\<open>xs[-2:]\<close>.\<close>

definition last_two :: "'a list \<Rightarrow> 'a list" where
  "last_two xs = drop (length xs - 2) xs"

text \<open>\<open>s.replace(old, '')\<close> for a non-empty \<open>old\<close>: every non-overlapping occurrence, from
  the left, is removed.\<close>

fun remove_all :: "string \<Rightarrow> string \<Rightarrow> string" where
  "remove_all old [] = []"
| "remove_all old (c # cs) =
     (if old \<noteq> [] \<and> take (length old) (c # cs) = old
      then remove_all old (drop (length old - 1) cs)
      else c # remove_all old cs)"

subsection \<open>\<open>urllib.parse.quote\<close>\<close>

text \<open>The characters \<open>quote\<close> never escapes: ASCII letters, digits and \<open>_.-~\<close>.\<close>

definition is_alnum :: "char \<Rightarrow> bool" where
  "is_alnum c =
     (let n = (of_char c :: nat)
      in (65 \<le> n \<and> n \<le> 90) \<or> (97 \<le> n \<and> n \<le> 122) \<or> (48 \<le> n \<and> n \<le> 57))"

definition always_safe :: "char \<Rightarrow> bool" where
  "always_safe c = (is_alnum c \<or> c \<in> set ''_.-~'')"

definition percent :: "char \<Rightarrow> string" where
  "percent c = (let n = (of_char c :: nat) in
     [CHR ''%'', ''0123456789ABCDEF'' ! (n div 16), ''0123456789ABCDEF'' ! (n mod 16)])"

definition quote :: "string \<Rightarrow> string \<Rightarrow> string" where
  "quote bs safe =
     concat (map (\<lambda>c. if always_safe c \<or> c \<in> set safe then [c] else percent c) bs)"

section \<open>Query/form codec\<close>

text \<open>
  What a codec makes of a text: its bytes, or one of the two errors of \<open>str.encode\<close>, the
  \<open>LookupError\<close> of a name no codec has and the \<open>UnicodeEncodeError\<close> of a text the codec
  cannot encode. The codec registry, a function of the codec's name and the text, is a
  parameter of the model.
\<close>

datatype encoded = Encoded string | UnknownCodec | Unencodable

type_synonym codecs = "string \<Rightarrow> string \<Rightarrow> encoded"

text \<open>
  \<open>s.encode(encoding, errors='strict')\<close>. \<open>Request.__init__\<close> sets \<open>self.encoding\<close> to \<open>None\<close>
  (line 83), and \<open>str.encode\<close> raises \<open>TypeError\<close> when the encoding is not a \<open>str\<close>.
\<close>

definition py_encode :: "codecs \<Rightarrow> string option \<Rightarrow> string \<Rightarrow> error + string" where
  "py_encode codec encoding s =
     (case encoding of
        None \<Rightarrow> Inl TypeError
      | Some name \<Rightarrow>
          (case codec name s of
             Encoded bs \<Rightarrow> Inr bs
           | UnknownCodec \<Rightarrow> Inl LookupError
           | Unencodable \<Rightarrow> Inl UnicodeEncodeError))"

text \<open>\<open>Request._queryify\<close> (lines 486-487), under the request's \<open>self.encoding\<close>.\<close>

definition queryify :: "codecs \<Rightarrow> string option \<Rightarrow> string \<Rightarrow> error + string" where
  "queryify codec encoding query =
     (case py_encode codec encoding query of
        Inl e \<Rightarrow> Inl e
      | Inr bs \<Rightarrow> Inr (quote bs ''/=+?&''))"

text \<open>Evaluation from left to right: the values, up to the first error.\<close>

fun collect :: "(error + 'a) list \<Rightarrow> error + 'a list" where
  "collect [] = Inr []"
| "collect (x # xs) =
     (case x of
        Inl e \<Rightarrow> Inl e
      | Inr y \<Rightarrow> (case collect xs of Inl e \<Rightarrow> Inl e | Inr ys \<Rightarrow> Inr (y # ys)))"

text \<open>
  The body of the loop \<open>for k, v in data.items()\<close> of \<open>Request._dict_to_query\<close>: the pairs
  one item appends to \<open>query\<close>.
\<close>

fun item_query :: "codecs \<Rightarrow> string option \<Rightarrow> string \<times> pyvalue \<Rightarrow> error + string list" where
  "item_query codec encoding (k, v) =
     (if \<not> truthy v then Inr []
      else case v of
          Atom a \<Rightarrow> (case a of
              ANone \<Rightarrow> Inr []
            | _ \<Rightarrow> collect [queryify codec encoding
                               (k @ ''='' @ py_join ''+'' (py_split (py_str a)))])
        | PMap kvs \<Rightarrow> collect (map (\<lambda>key. queryify codec encoding (k @ ''='' @ key)) (map fst kvs))
        | PList elms \<Rightarrow>
            collect (map (\<lambda>elm. queryify codec encoding
                                  (k @ ''='' @ py_join ''+'' (py_split (py_str elm)))) elms))"

text \<open>
  \<open>Request._dict_to_query(data, params, base_query)\<close>. \<open>data.items()\<close> raises
  \<open>AttributeError\<close> when \<open>data\<close> is not a mapping.
\<close>

definition dict_to_query ::
  "codecs \<Rightarrow> string option \<Rightarrow> pyarg \<Rightarrow> bool \<Rightarrow> bool \<Rightarrow> error + string" where
  "dict_to_query codec encoding data params base_query =
     (case data of
        PDict items \<Rightarrow>
          (case collect (map (item_query codec encoding) items) of
             Inl e \<Rightarrow> Inl e
           | Inr pairs \<Rightarrow>
               (let query = concat pairs in
                if params \<and> query \<noteq> [] then
                  (if \<not> base_query then Inr (''?'' @ py_join ''&'' query)
                   else Inr (''&'' @ py_join ''&'' query))
                else Inr (py_join ''&'' query)))
      | _ \<Rightarrow> Inl AttributeError)"

section \<open>Multipart encoder\<close>

text \<open>
  What the encoder takes from outside the class: the module constant \<open>_BOUNDARY\<close> (a fixed
  prefix and a random suffix drawn once at import), the file system behind
  \<open>_async_lib.aopen\<close> (\<open>fs p = None\<close>: \<open>FileNotFoundError\<close>; otherwise the file's bytes, what
  \<open>b''.join(await o_file.readlines())\<close> yields), whether an integer names a readable file
  descriptor, and \<open>mimetypes.guess_type\<close>, which returns the pair (type, encoding). With them
  come \<open>json.dumps\<close> and the codec registry behind \<open>str.encode\<close>.
\<close>

record codec_env =
  BOUNDARY :: string
  fs :: "string \<Rightarrow> string option"
  fd_readable :: "int \<Rightarrow> bool"
  guess_type :: "string \<Rightarrow> string option \<times> string option"
  json_dumps :: "pyarg \<Rightarrow> string"
  str_encode :: codecs

definition CRLF :: string where
  "CRLF = [CHR 0x0D, CHR 0x0A]"

text \<open>\<open>os.path.basename\<close> (POSIX): what follows the last slash.\<close>

definition basename :: "string \<Rightarrow> string" where
  "basename p = last (py_split_on CHR ''/'' p)"

definition hder_format :: "string \<Rightarrow> string" where
  "hder_format k = ''Content-Disposition: form-data; name=\"'' @ k @ ''\"''"

definition hder_format_io :: "string \<Rightarrow> string" where
  "hder_format_io f = ''; filename=\"'' @ f @ ''\"''"

text \<open>
  Lines 463-467 of \<open>_multipart\<close>: the content type chosen from \<open>guess_type\<close>'s pair. The test
  is on component 1 of the pair, the encoding; \<open>'/'.join\<close> raises \<open>TypeError\<close> on a pair whose
  type is \<open>None\<close>.
\<close>

definition mime_type_of :: "string option \<times> string option \<Rightarrow> error + string" where
  "mime_type_of mime_type =
     (case snd mime_type of
        None \<Rightarrow> Inr ''application/octet-stream''
      | Some enc \<Rightarrow>
          if enc = [] then Inr ''application/octet-stream''
          else (case fst mime_type of
                  None \<Rightarrow> Inl TypeError
                | Some ty \<Rightarrow> Inr (ty @ ''/'' @ enc)))"

text \<open>
  The \<open>except (TypeError, FileNotFoundError)\<close> branch for a part \<open>k, v\<close>, appended to what
  \<open>multip_pkg\<close> holds when the exception is raised; \<open>bytes(v, encoding)\<close> raises \<open>TypeError\<close>
  again, uncaught, unless \<open>v\<close> is a string.
\<close>

definition literal_part :: "string \<Rightarrow> pyvalue \<Rightarrow> string \<Rightarrow> error + string" where
  "literal_part k v multip_pkg =
     (case v of
        Atom (AStr s) \<Rightarrow> Inr (multip_pkg @ hder_format k @ CRLF @ CRLF @ s @ CRLF)
      | _ \<Rightarrow> Inl TypeError)"

text \<open>The \<open>try\<close> block and its handler for one part, \<open>multip_pkg\<close> already holding the
  part's opening boundary line.\<close>

definition multipart_part :: "'a codec_env_scheme \<Rightarrow> string \<Rightarrow> pyvalue \<Rightarrow> string \<Rightarrow> error + string" where
  "multipart_part env k v multip_pkg =
     (case v of
        Atom (AStr p) \<Rightarrow>
          (case fs env p of
             None \<Rightarrow> literal_part k v multip_pkg
           | Some content \<Rightarrow>
               (let pkg_body = content @ CRLF;
                    pkg1 = multip_pkg @ hder_format k @ hder_format_io (basename p)
                in case mime_type_of (guess_type env (basename p)) of
                     Inl e \<Rightarrow> literal_part k v pkg1
                   | Inr mime_type \<Rightarrow>
                       Inr (pkg1 @ ''; Content-Type: '' @ mime_type @ CRLF @ CRLF @ pkg_body)))
      | Atom (AInt fd) \<Rightarrow> (if fd_readable env fd then literal_part k v multip_pkg else Inl OSError)
      | Atom (ABool b) \<Rightarrow>
          (if fd_readable env (if b then 1 else 0) then literal_part k v multip_pkg
           else Inl OSError)
      | _ \<Rightarrow> literal_part k v multip_pkg)"

text \<open>The loop of \<open>_multipart\<close> over the items still to go; the closing boundary follows the
  last one (\<open>index == num_of_parts\<close>).\<close>

fun multipart_loop ::
  "'a codec_env_scheme \<Rightarrow> (string \<times> pyvalue) list \<Rightarrow> string \<Rightarrow> error + string" where
  "multipart_loop env [] multip_pkg = Inr multip_pkg"
| "multipart_loop env ((k, v) # rest) multip_pkg =
     (case multipart_part env k v (multip_pkg @ ''--'' @ BOUNDARY env @ CRLF) of
        Inl e \<Rightarrow> Inl e
      | Inr pkg \<Rightarrow>
          multipart_loop env rest
            (if rest = [] then pkg @ ''--'' @ BOUNDARY env @ ''--'' @ CRLF else pkg))"

text \<open>\<open>Request._multipart(files_dict)\<close>.\<close>

definition multipart :: "'a codec_env_scheme \<Rightarrow> (string \<times> pyvalue) list \<Rightarrow> error + string" where
  "multipart env files_dict = multipart_loop env files_dict []"

section \<open>Dictionaries\<close>

text \<open>A Python dict as an association list in insertion order: \<open>d[k] = v\<close> and
  \<open>d.update(other)\<close> (also \<open>{**d, **other}\<close>).\<close>

fun dict_set :: "'k \<Rightarrow> 'v \<Rightarrow> ('k \<times> 'v) list \<Rightarrow> ('k \<times> 'v) list" where
  "dict_set k v [] = [(k, v)]"
| "dict_set k v ((k', v') # rest) =
     (if k' = k then (k, v) # rest else (k', v') # dict_set k v rest)"

definition dict_update :: "('k \<times> 'v) list \<Rightarrow> ('k \<times> 'v) list \<Rightarrow> ('k \<times> 'v) list" where
  "dict_update d other = fold (\<lambda>(k, v) acc. dict_set k v acc) other d"

text \<open>
  Modelled from the spec: \<open>CaseInsensitiveDict\<close> of \<open>asks/req_structs.py\<close> (imported as
  \<open>c_i_dict\<close>, not part of \<open>request.py\<close>), the "case-insensitive mapping" of the headers.
  An entry holds the lower-cased key, the key as last written and the value; reading an
  absent key raises \<open>KeyError\<close>, which \<open>request.py\<close> relies on in its \<open>except KeyError\<close>
  clauses.
\<close>

type_synonym 'v c_i_dict = "(string \<times> string \<times> 'v) list"

fun ci_set :: "string \<Rightarrow> 'v \<Rightarrow> 'v c_i_dict \<Rightarrow> 'v c_i_dict" where
  "ci_set k v [] = [(py_lower k, k, v)]"
| "ci_set k v ((lk, ok, ov) # rest) =
     (if lk = py_lower k then (lk, k, v) # rest else (lk, ok, ov) # ci_set k v rest)"

definition ci_get :: "string \<Rightarrow> 'v c_i_dict \<Rightarrow> error + 'v" where
  "ci_get k d = (case map_of d (py_lower k) of None \<Rightarrow> Inl KeyError | Some (ok, v) \<Rightarrow> Inr v)"

definition ci_update :: "'v c_i_dict \<Rightarrow> (string \<times> 'v) list \<Rightarrow> 'v c_i_dict" where
  "ci_update d other = fold (\<lambda>(k, v) acc. ci_set k v acc) other d"

definition c_i_dict :: "(string \<times> 'v) list \<Rightarrow> 'v c_i_dict" where
  "c_i_dict kvs = ci_update [] kvs"

definition ci_items :: "'v c_i_dict \<Rightarrow> (string \<times> 'v) list" where
  "ci_items d = map snd d"

section \<open>Body formulation\<close>

text \<open>
  \<open>Request._formulate_body\<close>, on the request's \<open>encoding\<close>, \<open>files\<close>, \<open>data\<close> and \<open>json\<close>:
  the content type (\<open>None\<close> when no branch is taken), \<open>str(len(body))\<close> and the body.
\<close>

definition formulate_body ::
  "'a codec_env_scheme \<Rightarrow> string option \<Rightarrow> pyarg \<Rightarrow> pyarg \<Rightarrow> pyarg \<Rightarrow>
   error + (string option \<times> string \<times> string)" where
  "formulate_body env encoding files data json =
     (let multipart_ctype = ''multipart/form-data; boundary='' @ BOUNDARY env in
      if files \<noteq> PNone \<and> data \<noteq> PNone then
        (case (files, data) of
           (PDict f, PDict d) \<Rightarrow>
             (case multipart env (dict_update f d) of
                Inl e \<Rightarrow> Inl e
              | Inr body \<Rightarrow> Inr (Some multipart_ctype, str_int (int (length body)), body))
         | _ \<Rightarrow> Inl TypeError)
      else if files \<noteq> PNone then
        (case files of
           PDict f \<Rightarrow>
             (case multipart env f of
                Inl e \<Rightarrow> Inl e
              | Inr body \<Rightarrow> Inr (Some multipart_ctype, str_int (int (length body)), body))
         | _ \<Rightarrow> Inl AttributeError)
      else if data \<noteq> PNone then
        (case dict_to_query (str_encode env) encoding data False False of
           Inr body \<Rightarrow>
             Inr (Some ''application/x-www-form-urlencoded'', str_int (int (length body)), body)
         | Inl e \<Rightarrow>
             (case data of
                PStr body \<Rightarrow> Inr (Some '' text/html'', str_int (int (length body)), body)
              | _ \<Rightarrow> Inl e))
      else if json \<noteq> PNone then
        (let body = json_dumps env json
         in Inr (Some ''application/json'', str_int (int (length body)), body))
      else Inr (None, ''0'', []))"

section \<open>Requests, responses and the collaborators\<close>

text \<open>The connection handle: its identity, the \<open>_active\<close> flag and its \<open>port\<close>.\<close>

record sock =
  sock_id :: nat
  active :: bool
  sock_port :: string

text \<open>The class of \<open>self.auth\<close>, as the \<open>isinstance\<close> tests of the handlers see it.\<close>

datatype auth = PreResponseAuth | PostResponseAuth | OtherAuth

text \<open>A response header's value: a string, or the list built for \<open>set-cookie\<close>.\<close>

datatype hval = HStr string | HList "string list"

datatype body = Bytes string | StreamBody "sock option"

text \<open>
  Modelled from the spec: the \<open>Response\<close> object of \<open>asks/response_objects.py\<close> (not part of
  \<open>request.py\<close>), constructed from encoding, method, status code, reason phrase, protocol
  version, headers and body, with a mutable \<open>history\<close> that starts empty.
\<close>

datatype response = Response
  (resp_encoding: string)
  (resp_method: string)
  (status_code: int)
  (reason_phrase: string)
  (http_version: string)
  (resp_headers: "hval c_i_dict")
  (resp_body: body)
  (history: "response list")
  (resp_cookies: "(string \<times> string) list")

fun set_history :: "response list \<Rightarrow> response \<Rightarrow> response" where
  "set_history hs (Response e m c r v h b _ ck) = Response e m c r v h b hs ck"

fun set_encoding :: "string \<Rightarrow> response \<Rightarrow> response" where
  "set_encoding e (Response _ m c r v h b hs ck) = Response e m c r v h b hs ck"

fun set_cookies :: "(string \<times> string) list \<Rightarrow> response \<Rightarrow> response" where
  "set_cookies ck (Response e m c r v h b hs _) = Response e m c r v h b hs ck"

text \<open>
  What \<open>h11\<close>'s \<open>next_event\<close> yields once data is there: the response head (status code,
  headers with lower-case names, reason, version), a body chunk, the end of the message,
  or the closing of the connection.
\<close>

datatype event =
    EvResponse int "(string \<times> string) list" string string
  | EvData string
  | EvEndOfMessage
  | EvConnectionClosed

text \<open>What \<open>_send\<close> puts on the socket: the \<open>h11.Request\<close> and the optional \<open>h11.Data\<close>.\<close>

record h11_request =
  req_method :: string
  target :: string
  req_headers :: "(string \<times> string) list"

text \<open>
  The \<open>Request\<close> object (\<open>self\<close>), its attributes under their own names (\<open>self.method\<close>
  is \<open>http_method\<close>, the plain word being an Isabelle keyword). \<open>callback\<close> tells
  whether a callback was given; \<open>auth_attempted\<close> is the flag of the auth object;
  \<open>encoding\<close> is the codec name the request was constructed with (the constructor's default
  \<open>None\<close>, under which \<open>_queryify\<close> raises, is the \<open>None\<close> of \<open>py_encode\<close>). The last
  five fields are the world the exchange acts on: the events the transport will deliver,
  in order; the requests sent so far; the chunks handed to the callback; the sockets given
  back to the session; and the responses stored by the cookie tracker.
\<close>

record request =
  http_method :: string
  uri :: string
  port :: string
  auth :: "auth option"
  auth_attempted :: bool
  auth_off_domain :: bool
  data :: pyarg
  params :: pyarg
  headers :: "(string \<times> string) list option"
  encoding :: string
  json :: pyarg
  files :: pyarg
  cookies :: "(string \<times> atom) list"
  callback :: bool
  stream :: "bool option"
  max_redirects :: int
  sock :: "sock option"
  persist_cookies :: bool
  history_objects :: "response list"
  scheme :: string
  netloc :: string
  path :: string
  query :: string
  initial_scheme :: "string option"
  initial_netloc :: "string option"
  streaming :: bool
  wire :: "event list"
  sent :: "(h11_request \<times> string option) list"
  delivered :: "string list"
  retired :: "sock list"
  stored :: "response list"

text \<open>The three ways \<open>_get_new_sock\<close> asks the session for a connection.\<close>

datatype grab = ForUri string | SameOrigin | OffBase string

text \<open>
  The collaborators of the class, taken as parameters: \<open>urlparse\<close> and \<open>urlunparse\<close> of
  \<open>urllib.parse\<close> (on the six components scheme, netloc, path, params, query, fragment),
  the \<open>__call__\<close> of the two kinds of auth object, the cookie tracker's
  \<open>get_additional_cookies\<close> (given what it has stored), the response's \<open>_parse_cookies\<close>
  and \<open>_guess_encoding\<close>, whether the session is a \<open>DSession\<close>, and the session's
  \<open>_grab_connection\<close> (given the sockets handed back so far), which returns a socket and a
  port.
\<close>

record env = codec_env +
  urlparse :: "string \<Rightarrow> string \<times> string \<times> string \<times> string \<times> string \<times> string"
  urlunparse :: "string \<times> string \<times> string \<times> string \<times> string \<times> string \<Rightarrow> string"
  pre_auth :: "request \<Rightarrow> (string \<times> string) list"
  post_auth :: "response \<Rightarrow> request \<Rightarrow> (string \<times> string) list"
  get_additional_cookies :: "response list \<Rightarrow> string \<Rightarrow> string \<Rightarrow> (string \<times> atom) list"
  parse_cookies :: "string \<Rightarrow> response \<Rightarrow> (string \<times> string) list"
  guess_encoding :: "response \<Rightarrow> string"
  is_DSession :: bool
  grab_connection :: "grab \<Rightarrow> sock list \<Rightarrow> sock \<times> string"

text \<open>The result of a step: the value returned or the exception raised, and \<open>self\<close> after it.\<close>

type_synonym 'a result = "(error + 'a) \<times> request"

section \<open>Response consumer\<close>

text \<open>\<open>Request._recv_event\<close>: the next event of the connection.\<close>

definition recv_event :: "request \<Rightarrow> event result" where
  "recv_event st =
     (case wire st of
        [] \<Rightarrow> (Inl NoMoreData, st)
      | ev # evs \<Rightarrow> (Inr ev, st\<lparr>wire := evs\<rparr>))"

text \<open>\<open>int(s)\<close> on a header value: surrounding whitespace, a sign, decimal digits
  (\<open>h11\<close> lets only digits through as a \<open>Content-Length\<close>).\<close>

definition py_int :: "string \<Rightarrow> int option" where
  "py_int s =
     (let t = py_strip s;
          neg = (t \<noteq> [] \<and> hd t = CHR ''-'');
          ds = (if t \<noteq> [] \<and> (hd t = CHR ''-'' \<or> hd t = CHR ''+'') then tl t else t)
      in if ds \<noteq> [] \<and> list_all (\<lambda>c. c \<in> set ''0123456789'') ds
         then Some ((if neg then - 1 else 1) *
                    int (fold (\<lambda>c n. 10 * n + (of_char c - 48)) ds 0))
         else None)"

text \<open>Lines 518-525 of \<open>_catch_response\<close>: the \<open>set-cookie\<close> values collected into a list.\<close>

definition add_set_cookie :: "hval c_i_dict \<Rightarrow> string \<times> string \<Rightarrow> hval c_i_dict" where
  "add_set_cookie hs header =
     (if fst header = ''set-cookie'' then
        (case ci_get ''set-cookie'' hs of
           Inr (HList vs) \<Rightarrow> ci_set ''set-cookie'' (HList (vs @ [snd header])) hs
         | _ \<Rightarrow> ci_set ''set-cookie'' (HList [snd header]) hs)
      else hs)"

definition response_headers :: "(string \<times> string) list \<Rightarrow> hval c_i_dict" where
  "response_headers hdrs =
     foldl add_set_cookie (c_i_dict (map (\<lambda>(name, v). (name, HStr v)) hdrs)) hdrs"

text \<open>
  Lines 526-532: \<open>get_body\<close>. The lookup of \<open>transfer-encoding\<close> is made inside the handler
  of the \<open>KeyError\<close> of \<open>content-length\<close>; its own \<open>KeyError\<close> is not caught.
\<close>

definition body_expected :: "hval c_i_dict \<Rightarrow> error + bool" where
  "body_expected hs =
     (case ci_get ''content-length'' hs of
        Inr (HStr v) \<Rightarrow> (case py_int v of None \<Rightarrow> Inl ValueError | Some n \<Rightarrow> Inr (0 < n))
      | Inr (HList vs) \<Rightarrow> Inl TypeError
      | Inl e \<Rightarrow>
          (case ci_get ''transfer-encoding'' hs of
             Inl e' \<Rightarrow> Inl e'
           | Inr v \<Rightarrow> Inr (v = HStr ''chunked'')))"

text \<open>\<open>Request._body_callback\<close>: every chunk goes to the callback; the first event that is
  not a chunk is returned.\<close>

fun feed_callback ::
  "event list \<Rightarrow> string list \<Rightarrow> (error + event) \<times> event list \<times> string list" where
  "feed_callback [] log = (Inl NoMoreData, [], log)"
| "feed_callback (EvData d # evs) log = feed_callback evs (log @ [d])"
| "feed_callback (ev # evs) log = (Inr ev, evs, log)"

definition body_callback :: "request \<Rightarrow> event result" where
  "body_callback st =
     (case feed_callback (wire st) (delivered st) of
        (res, evs, log) \<Rightarrow> (res, st\<lparr>wire := evs, delivered := log\<rparr>))"

text \<open>Lines 548-555: the buffering loop, up to and including the end of the message.\<close>

fun read_body :: "event list \<Rightarrow> string \<Rightarrow> (error + string) \<times> event list" where
  "read_body [] acc = (Inl NoMoreData, [])"
| "read_body (EvData d # evs) acc = read_body evs (acc @ d)"
| "read_body (EvEndOfMessage # evs) acc = (Inr acc, evs)"
| "read_body (ev # evs) acc = read_body evs acc"

text \<open>Lines 539-542: before streaming, the socket is marked inactive unless the exchange is
  still at its initial origin or the response says \<open>connection: close\<close>.\<close>

definition stream_sock :: "hval c_i_dict \<Rightarrow> request \<Rightarrow> unit result" where
  "stream_sock hs st =
     (if Some (scheme st) = initial_scheme st \<and> Some (netloc st) = initial_netloc st
      then (Inr (), st)
      else case ci_get ''connection'' hs of
             Inl e \<Rightarrow> (Inl e, st)
           | Inr v \<Rightarrow>
               if v = HStr ''close'' then (Inr (), st)
               else (case sock st of
                       None \<Rightarrow> (Inl AttributeError, st)
                     | Some s \<Rightarrow> (Inr (), st\<lparr>sock := Some (s\<lparr>active := False\<rparr>)\<rparr>)))"

text \<open>\<open>Request._catch_response\<close>.\<close>

definition catch_response :: "request \<Rightarrow> response result" where
  "catch_response st0 =
     (case recv_event st0 of
        (Inl e, st) \<Rightarrow> (Inl e, st)
      | (Inr (EvResponse code hdrs reason version), st) \<Rightarrow>
          (let hs = response_headers hdrs;
               resp = (\<lambda>b. Response (encoding st) (http_method st) code reason version hs b [] [])
           in case body_expected hs of
                Inl e \<Rightarrow> (Inl e, st)
              | Inr get_body \<Rightarrow>
                  if get_body then
                    (if callback st then
                       (case body_callback st of
                          (Inl e, st1) \<Rightarrow> (Inl e, st1)
                        | (Inr endof, st1) \<Rightarrow> (Inr (resp (Bytes [])), st1))
                     else if stream st \<noteq> None then
                       (if 199 < code \<and> code < 300 then
                          (case stream_sock hs st of
                             (Inl e, st1) \<Rightarrow> (Inl e, st1)
                           | (Inr u, st1) \<Rightarrow>
                               (Inr (resp (StreamBody (sock st1))), st1\<lparr>streaming := True\<rparr>))
                        else (Inr (resp (Bytes [])), st))
                     else
                       (case read_body (wire st) [] of
                          (Inl e, evs) \<Rightarrow> (Inl e, st\<lparr>wire := evs\<rparr>)
                        | (Inr b, evs) \<Rightarrow> (Inr (resp (Bytes b)), st\<lparr>wire := evs\<rparr>)))
                  else
                    (case recv_event st of
                       (Inl e, st1) \<Rightarrow> (Inl e, st1)
                     | (Inr EvEndOfMessage, st1) \<Rightarrow> (Inr (resp (Bytes [])), st1)
                     | (Inr ev, st1) \<Rightarrow> (Inl AssertionError, st1)))
      | (Inr ev, st) \<Rightarrow> (Inl AttributeError, st))"

section \<open>Connection lifecycle\<close>

text \<open>\<open>Request._get_new_sock(off_base_loc)\<close>; \<open>None\<close> stands for the default \<open>False\<close>.\<close>

definition get_new_sock :: "env \<Rightarrow> string option \<Rightarrow> request \<Rightarrow> unit result" where
  "get_new_sock env off_base_loc st =
     (case sock st of
        None \<Rightarrow> (Inl AttributeError, st)
      | Some s \<Rightarrow>
          (let old = s\<lparr>active := False\<rparr>;
               st1 = st\<lparr>sock := Some old, retired := retired st @ [old]\<rparr>
           in if is_DSession env then
                (let new = fst (grab_connection env (ForUri (uri st1)) (retired st1))
                 in (Inr (), st1\<lparr>sock := Some new, port := sock_port new\<rparr>))
              else
                (case off_base_loc of
                   None \<Rightarrow>
                     (Inr (), st1\<lparr>sock := Some (fst (grab_connection env SameOrigin (retired st1)))\<rparr>)
                 | Some loc \<Rightarrow>
                     if loc = [] then
                       (Inr (), st1\<lparr>sock := Some (fst (grab_connection env SameOrigin (retired st1)))\<rparr>)
                     else
                       (let new = grab_connection env (OffBase loc) (retired st1)
                        in (Inr (), st1\<lparr>sock := Some (fst new), port := snd new\<rparr>)))))"

section \<open>Authentication\<close>

text \<open>\<open>Request._auth_handler_pre\<close>.\<close>

definition auth_handler_pre :: "env \<Rightarrow> request \<Rightarrow> (string \<times> string) list" where
  "auth_handler_pre env st = (if auth st = Some PreResponseAuth then pre_auth env st else [])"

text \<open>\<open>Request._auth_handler_post_get_auth\<close>: the headers, and \<open>self\<close> with the flag set.\<close>

definition auth_handler_post_get_auth ::
  "env \<Rightarrow> request \<Rightarrow> (string \<times> string) list \<times> request" where
  "auth_handler_post_get_auth env st =
     (if auth st = Some PostResponseAuth \<and> history_objects st \<noteq> []
         \<and> status_code (last (history_objects st)) = 401 \<and> \<not> auth_attempted st
      then (let st1 = st\<lparr>auth_attempted := True\<rparr>
            in (post_auth env (last (history_objects st)) st1, st1))
      else ([], st))"

text \<open>
  What \<open>response_obj\<close> is bound to in \<open>_request_io\<close>: a \<open>Response\<close>, or the pair that
  \<open>make_request\<close> returns.
\<close>

datatype returned = Resp response | Tuple "sock option" response

text \<open>
  \<open>Request._auth_handler_post_check_retry\<close>; \<open>mk\<close> is \<open>self.make_request()\<close>. Line 626 binds
  \<open>r\<close> to the whole value of \<open>make_request\<close>, the pair, and line 628 returns it.
\<close>

definition auth_handler_post_check_retry ::
  "(request \<Rightarrow> (sock option \<times> response) result) \<Rightarrow> response \<Rightarrow> request \<Rightarrow> returned result" where
  "auth_handler_post_check_retry mk response_obj st =
     (if auth st = Some PostResponseAuth then
        (if status_code response_obj = 401 then
           (if \<not> auth_attempted st then
              (case mk (st\<lparr>history_objects := history_objects st @ [response_obj]\<rparr>) of
                 (Inl e, st1) \<Rightarrow> (Inl e, st1)
               | (Inr r, st1) \<Rightarrow> (Inr (Tuple (fst r) (snd r)), st1\<lparr>auth_attempted := False\<rparr>))
            else (Inr (Resp (set_history (history_objects st) response_obj)), st))
         else (Inr (Resp response_obj), st))
      else (Inr (Resp response_obj), st))"

section \<open>Redirects\<close>

text \<open>\<open>a < b\<close> on Python strings.\<close>

fun str_less :: "string \<Rightarrow> string \<Rightarrow> bool" where
  "str_less [] [] = False"
| "str_less [] (y # ys) = True"
| "str_less (x # xs) [] = False"
| "str_less (x # xs) (y # ys) = ((of_char x :: nat) < of_char y \<or> (x = y \<and> str_less xs ys))"

text \<open>\<open>re.match(_WWX_MATCH, s)\<close> with \<open>_WWX_MATCH = re.compile(r'\Aww.\.')\<close>: the matched
  text, or \<open>None\<close>.\<close>

definition wwx_match :: "string \<Rightarrow> string option" where
  "wwx_match s =
     (case s of
        a # b # c # d # rest \<Rightarrow>
          if a = CHR ''w'' \<and> b = CHR ''w'' \<and> c \<noteq> CHR 0x0A \<and> d = CHR ''.''
          then Some [a, b, c, d] else None
      | _ \<Rightarrow> None)"

text \<open>Lines 645-647 and 652-654: the port is cut off and every occurrence of the matched
  prefix removed; subscripting the \<open>None\<close> of a failed match raises \<open>TypeError\<close>.\<close>

definition sans_port_wwx :: "string \<Rightarrow> error + string" where
  "sans_port_wwx nl =
     (let sans_port = (case py_split_on CHR '':'' nl of [] \<Rightarrow> [] | x # xs \<Rightarrow> x)
      in case wwx_match sans_port of
           None \<Rightarrow> Inl TypeError
         | Some m \<Rightarrow> Inr (remove_all m sans_port))"

text \<open>The body of \<open>Request._location_auth_protect\<close>: \<open>True\<close>, \<open>False\<close>, or \<open>None\<close> when the
  function ends without a \<open>return\<close>.\<close>

definition location_auth_protect :: "env \<Rightarrow> request \<Rightarrow> string \<Rightarrow> error + bool option" where
  "location_auth_protect env st location =
     (case sans_port_wwx (netloc st) of
        Inl e \<Rightarrow> Inl e
      | Inr netloc_sans_port \<Rightarrow>
          (let base_domain = py_join ''.'' (last_two (py_split_on CHR ''.'' netloc_sans_port));
               l_scheme = fst (urlparse env location);
               l_netloc = fst (snd (urlparse env location))
           in case sans_port_wwx l_netloc of
                Inl e \<Rightarrow> Inl e
              | Inr location_sans_port \<Rightarrow>
                  (let location_domain =
                         py_join ''.'' (last_two (py_split_on CHR ''.'' location_sans_port))
                   in if base_domain = location_domain then
                        (if str_less l_scheme (scheme st) then Inr (Some False)
                         else Inr (Some True))
                      else Inr None)))"

text \<open>
  \<open>_location_auth_protect\<close> is declared \<open>async def\<close>, and line 316 calls it without
  \<open>await\<close>: \<open>allow_redirect\<close> is bound to the coroutine object, whose body has not run, and
  \<open>if allow_redirect:\<close> on line 335 tests the truth value of that object. A coroutine
  object defines neither \<open>__bool__\<close> nor \<open>__len__\<close>, so it is true.
\<close>

datatype 'a coroutine = Coroutine 'a

definition coroutine_truthy :: "'a coroutine \<Rightarrow> bool" where
  "coroutine_truthy c = True"

text \<open>
  Lines 303-320 of \<open>_redirect\<close>: the new \<open>uri\<close> and, when the origin changes, a new socket;
  the value is \<open>allow_redirect\<close>.
\<close>

definition redirect_location :: "env \<Rightarrow> string \<Rightarrow> request \<Rightarrow> bool result" where
  "redirect_location env location st =
     (case urlparse env (py_strip location) of
        (r_scheme, r_netloc, r_path, r_params, r_query, r_fragment) \<Rightarrow>
          if r_netloc = [] then
            (Inr True,
             st\<lparr>uri := urlunparse env
                    (scheme st, netloc st, r_path, r_params, r_query, r_fragment)\<rparr>)
          else
            (let location' = py_strip location;
                 allow_redirect =
                   (if auth st \<noteq> None \<and> \<not> auth_off_domain st
                    then coroutine_truthy (Coroutine (location_auth_protect env st location'))
                    else True);
                 st1 = st\<lparr>uri := location'\<rparr>;
                 l_scheme = fst (urlparse env location');
                 l_netloc = fst (snd (urlparse env location'))
             in if l_scheme \<noteq> scheme st1 \<or> l_netloc \<noteq> netloc st1 then
                  (case get_new_sock env (Some (uri st1)) st1 of
                     (Inl e, st2) \<Rightarrow> (Inl e, st2)
                   | (Inr u, st2) \<Rightarrow> (Inr allow_redirect, st2))
                else (Inr allow_redirect, st1)))"

text \<open>
  Lines 322-334 of \<open>_redirect\<close>: the history, the method and the counter, and a new socket
  when the response says \<open>connection: close\<close>.
\<close>

definition redirect_bookkeeping ::
  "env \<Rightarrow> response \<Rightarrow> bool \<Rightarrow> bool \<Rightarrow> request \<Rightarrow> bool result" where
  "redirect_bookkeeping env response_obj force_get allow_redirect st2 =
     (let st3 = st2\<lparr>history_objects := history_objects st2 @ [response_obj],
                   http_method := (if force_get then ''GET'' else http_method st2),
                   max_redirects := max_redirects st2 - 1\<rparr>
      in case ci_get ''connection'' (resp_headers response_obj) of
           Inl e \<Rightarrow> (Inr allow_redirect, st3)
         | Inr (HList vs) \<Rightarrow> (Inl AttributeError, st3)
         | Inr (HStr v) \<Rightarrow>
             if py_lower v = ''close'' then
               (case get_new_sock env None st3 of
                  (Inl e, st4) \<Rightarrow> (Inl e, st4)
                | (Inr u, st4) \<Rightarrow> (Inr allow_redirect, st4))
             else (Inr allow_redirect, st3))"

text \<open>Lines 303-334 of \<open>_redirect\<close>; the value is \<open>allow_redirect\<close>.\<close>

definition redirect_target ::
  "env \<Rightarrow> response \<Rightarrow> bool \<Rightarrow> string \<Rightarrow> request \<Rightarrow> bool result" where
  "redirect_target env response_obj force_get location st =
     (case redirect_location env location st of
        (Inl e, st2) \<Rightarrow> (Inl e, st2)
      | (Inr allow_redirect, st2) \<Rightarrow>
          redirect_bookkeeping env response_obj force_get allow_redirect st2)"

text \<open>\<open>Request._redirect\<close>; \<open>mk\<close> is \<open>self.make_request()\<close>, called on line 336 with the
  default \<open>redirect=False\<close>.\<close>

definition redirect ::
  "env \<Rightarrow> (request \<Rightarrow> (sock option \<times> response) result) \<Rightarrow> returned \<Rightarrow> request \<Rightarrow> response result" where
  "redirect env mk obj st =
     (case obj of
        Tuple s r \<Rightarrow> (Inl AttributeError, st)
      | Resp response_obj \<Rightarrow>
          if 300 \<le> status_code response_obj \<and> status_code response_obj < 400 then
            (let st1 = (if status_code response_obj = 303
                        then st\<lparr>data := PNone, json := PNone, files := PNone\<rparr> else st);
                 force_get = (status_code response_obj \<noteq> 301 \<and> status_code response_obj \<noteq> 305)
             in case ci_get ''Location'' (resp_headers response_obj) of
                  Inl e \<Rightarrow> (Inl e, st1)
                | Inr (HList vs) \<Rightarrow> (Inl AttributeError, st1)
                | Inr (HStr location) \<Rightarrow>
                    (case redirect_target env response_obj force_get location st1 of
                       (Inl e, st2) \<Rightarrow> (Inl e, st2)
                     | (Inr allow_redirect, st2) \<Rightarrow>
                         if allow_redirect then
                           (case mk st2 of
                              (Inl e, st3) \<Rightarrow> (Inl e, st3)
                            | (Inr r, st3) \<Rightarrow> (Inr (snd r), st3))
                         else (Inr response_obj, st2)))
          else (Inr response_obj, st))"

section \<open>Request orchestrator\<close>

text \<open>\<open>Request._send\<close>.\<close>

definition send :: "h11_request \<Rightarrow> string option \<Rightarrow> request \<Rightarrow> unit result" where
  "send request_bytes body_bytes st =
     (case sock st of
        None \<Rightarrow> (Inl AttributeError, st)
      | Some s \<Rightarrow> (Inr (), st\<lparr>sent := sent st @ [(request_bytes, body_bytes)]\<rparr>))"

text \<open>\<open>Request._request_io\<close>; \<open>mk\<close> is \<open>self.make_request()\<close>.\<close>

definition request_io ::
  "env \<Rightarrow> (request \<Rightarrow> (sock option \<times> response) result) \<Rightarrow> h11_request \<Rightarrow> string option \<Rightarrow>
   request \<Rightarrow> response result" where
  "request_io env mk request_bytes body_bytes st0 =
     (case send request_bytes body_bytes st0 of
        (Inl e, st1) \<Rightarrow> (Inl e, st1)
      | (Inr u, st1) \<Rightarrow>
          (case catch_response st1 of
             (Inl e, st2) \<Rightarrow> (Inl e, st2)
           | (Inr r0, st2) \<Rightarrow>
               (let r1 = set_cookies (parse_cookies env (netloc st2) r0) r0;
                    st3 = (if persist_cookies st2 then st2\<lparr>stored := stored st2 @ [r1]\<rparr> else st2);
                    r2 = set_encoding (guess_encoding env r1) r1
                in case (if auth st3 \<noteq> None then auth_handler_post_check_retry mk r2 st3
                         else (Inr (Resp r2), st3)) of
                     (Inl e, st4) \<Rightarrow> (Inl e, st4)
                   | (Inr response_obj, st4) \<Rightarrow>
                       if http_method st4 \<noteq> ''HEAD'' then
                         (if max_redirects st4 < 0 then (Inl TooManyRedirects, st4)
                          else
                            (case redirect env mk response_obj st4 of
                               (Inl e, st5) \<Rightarrow> (Inl e, st5)
                             | (Inr r, st5) \<Rightarrow> (Inr (set_history (history_objects st5) r), st5)))
                       else
                         (case response_obj of
                            Tuple s r \<Rightarrow> (Inl AttributeError, st4)
                          | Resp r \<Rightarrow> (Inr (set_history (history_objects st4) r), st4)))))"

text \<open>\<open>Request._build_path\<close>. The codec's errors are not caught; \<open>self.path\<close> keeps what was
  assigned before one is raised.\<close>

definition build_path :: "env \<Rightarrow> request \<Rightarrow> unit result" where
  "build_path env st =
     (let st1 = (if path st = [] then st\<lparr>path := ''/''\<rparr> else st);
          st2 = (if query st1 \<noteq> [] then st1\<lparr>path := path st1 @ ''?'' @ query st1\<rparr> else st1)
      in if arg_truthy (params st2) then
           (case (if query st2 \<noteq> []
                  then dict_to_query (str_encode env) (Some (encoding st2)) (params st2) True True
                  else dict_to_query (str_encode env) (Some (encoding st2)) (params st2) True False) of
              Inr q \<Rightarrow> (Inr (), st2\<lparr>path := path st2 @ q\<rparr>)
            | Inl e \<Rightarrow>
                (case params st2 of
                   PStr p \<Rightarrow>
                     (case queryify (str_encode env) (Some (encoding st2)) p of
                        Inl e' \<Rightarrow> (Inl e', st2)
                      | Inr q \<Rightarrow> (Inr (), st2\<lparr>path := path st2 @ ''?'' @ q\<rparr>))
                 | _ \<Rightarrow> (Inl e, st2)))
         else (Inr (), st2))"

text \<open>Lines 171-173 of \<open>make_request\<close>: the loop that builds \<open>cookie_str\<close>.\<close>

definition cookie_str :: "(string \<times> atom) list \<Rightarrow> string" where
  "cookie_str cs = concat (map (\<lambda>(k, v). k @ ''='' @ py_str v @ ''; '') cs)"

text \<open>Lines 123-128 of \<open>make_request(redirect)\<close>: the URI is parsed and, unless the call
  says \<open>redirect\<close>, the initial origin recorded.\<close>

definition parse_uri :: "env \<Rightarrow> bool \<Rightarrow> request \<Rightarrow> request" where
  "parse_uri env redirect_arg st0 =
     (case urlparse env (uri st0) of
        (u_scheme, u_netloc, u_path, u_params, u_query, u_fragment) \<Rightarrow>
          (let st1 = st0\<lparr>scheme := u_scheme, netloc := u_netloc, path := u_path,
                        query := u_query\<rparr>
           in if \<not> redirect_arg
              then st1\<lparr>initial_scheme := Some (scheme st1), initial_netloc := Some (netloc st1)\<rparr>
              else st1))"

text \<open>Lines 130-140: the default headers.\<close>

definition default_headers :: "request \<Rightarrow> string c_i_dict" where
  "default_headers st =
     (let host = (if port st = ''80'' \<or> port st = ''443'' then netloc st
                  else netloc st @ '':'' @ port st)
      in c_i_dict [(''Host'', host),
                   (''Connection'', ''keep-alive''),
                   (''Accept-Encoding'', ''gzip, deflate''),
                   (''Accept'', ''*/*''),
                   (''Content-Length'', ''0''),
                   (''User-Agent'', ''python-asks/0.0.1'')])"

text \<open>Lines 144-147: the cookie tracker's cookies for this authority and path.\<close>

definition inject_cookies :: "env \<Rightarrow> request \<Rightarrow> request" where
  "inject_cookies env st =
     (if persist_cookies st
      then st\<lparr>cookies := dict_update (cookies st)
                 (get_additional_cookies env (stored st) (netloc st) (path st))\<rparr>
      else st)"

text \<open>Lines 153-157: the body, if any of \<open>data\<close>, \<open>files\<close> and \<open>json\<close> is true, and its two
  headers.\<close>

definition body_headers ::
  "env \<Rightarrow> string c_i_dict \<Rightarrow> request \<Rightarrow> error + (string c_i_dict \<times> string)" where
  "body_headers env asks_headers st =
     (if arg_truthy (data st) \<or> arg_truthy (files st) \<or> arg_truthy (json st)
      then (case formulate_body env (Some (encoding st)) (files st) (data st) (json st) of
              Inl e \<Rightarrow> Inl e
            | Inr (None, content_len, body) \<Rightarrow> Inl TypeError
            | Inr (Some content_type, content_len, body) \<Rightarrow>
                Inr (ci_set ''Content-Length'' content_len
                       (ci_set ''Content-Type'' content_type asks_headers), body))
      else Inr (asks_headers, []))"

text \<open>Lines 161-167: the caller's headers, then those of the auth handlers.\<close>

definition custom_and_auth_headers ::
  "env \<Rightarrow> string c_i_dict \<Rightarrow> request \<Rightarrow> string c_i_dict \<times> request" where
  "custom_and_auth_headers env asks_headers st =
     (let asks_headers2 = (case headers st of
                             None \<Rightarrow> asks_headers
                           | Some hs \<Rightarrow> ci_update asks_headers hs)
      in if auth st \<noteq> None then
           (let pre = auth_handler_pre env st;
                post = auth_handler_post_get_auth env st
            in (ci_update (ci_update asks_headers2 pre) (fst post), snd post))
         else (asks_headers2, st))"

text \<open>Lines 170-174: the \<open>Cookie\<close> header.\<close>

definition cookie_header :: "string c_i_dict \<Rightarrow> request \<Rightarrow> string c_i_dict" where
  "cookie_header asks_headers st =
     (if cookies st \<noteq> []
      then ci_set ''Cookie'' (butlast (cookie_str (cookies st))) asks_headers
      else asks_headers)"

text \<open>
  Lines 122-186 of \<open>make_request(redirect)\<close>: the URI is parsed, the initial origin
  recorded, the headers and the body assembled; the value is the \<open>h11.Request\<close> and the
  optional \<open>h11.Data\<close>.
\<close>

definition prepare :: "env \<Rightarrow> bool \<Rightarrow> request \<Rightarrow> (h11_request \<times> string option) result" where
  "prepare env redirect_arg st0 =
     (let st2 = parse_uri env redirect_arg st0;
          asks_headers = default_headers st2
      in case build_path env (inject_cookies env st2) of
           (Inl e, st4) \<Rightarrow> (Inl e, st4)
         | (Inr u, st4) \<Rightarrow>
             (case body_headers env asks_headers st4 of
                Inl e \<Rightarrow> (Inl e, st4)
              | Inr with_body \<Rightarrow>
                  (let with_auth = custom_and_auth_headers env (fst with_body) st4;
                       st5 = snd with_auth;
                       req = \<lparr>req_method = http_method st5, target = path st5,
                              req_headers = ci_items (cookie_header (fst with_auth) st5)\<rparr>;
                       req_body = (if snd with_body \<noteq> [] then Some (snd with_body) else None)
                   in (Inr (req, req_body), st5))))"

text \<open>Lines 191-203: the socket is judged and the pair returned.\<close>

definition finish :: "bool \<Rightarrow> response \<Rightarrow> request \<Rightarrow> (sock option \<times> response) result" where
  "finish redirect_arg response_obj st6 =
     (case (if redirect_arg \<and>
               \<not> (Some (scheme st6) = initial_scheme st6 \<and> Some (netloc st6) = initial_netloc st6)
            then (case sock st6 of
                    None \<Rightarrow> Inl AttributeError
                  | Some s \<Rightarrow> Inr (st6\<lparr>sock := Some (s\<lparr>active := False\<rparr>)\<rparr>))
            else Inr st6) of
        Inl e \<Rightarrow> (Inl e, st6)
      | Inr st7 \<Rightarrow>
          if streaming st7 then (Inr (None, response_obj), st7)
          else (Inr (sock st7, response_obj), st7))"

text \<open>
  The body of \<open>Request.make_request(redirect)\<close>; \<open>mk\<close> is the \<open>self.make_request()\<close> that
  \<open>_redirect\<close> and \<open>_auth_handler_post_check_retry\<close> call.
\<close>

definition make_request_body ::
  "env \<Rightarrow> (request \<Rightarrow> (sock option \<times> response) result) \<Rightarrow> bool \<Rightarrow> request \<Rightarrow>
   (sock option \<times> response) result" where
  "make_request_body env mk redirect_arg st0 =
     (case prepare env redirect_arg st0 of
        (Inl e, st5) \<Rightarrow> (Inl e, st5)
      | (Inr req, st5) \<Rightarrow>
          (case request_io env mk (fst req) (snd req) st5 of
             (Inl e, st6) \<Rightarrow> (Inl e, st6)
           | (Inr response_obj, st6) \<Rightarrow> finish redirect_arg response_obj st6))"

text \<open>
  \<open>Request.make_request\<close>. The first argument bounds the depth of the nested calls of
  \<open>make_request\<close> (one per redirect followed or authentication retry); every nested call
  passes the default \<open>redirect=False\<close>.
\<close>

primrec make_request ::
  "env \<Rightarrow> nat \<Rightarrow> bool \<Rightarrow> request \<Rightarrow> (sock option \<times> response) result" where
  "make_request env 0 = (\<lambda>redirect_arg st. (Inl OutOfFuel, st))"
| "make_request env (Suc n) = make_request_body env (make_request env n False)"

text \<open>
  \<open>Request.__init__\<close> with two keyword arguments, \<open>sock\<close> and \<open>encoding='utf-8'\<close>; every other
  attribute has the constructor's default. \<open>scheme\<close>, \<open>netloc\<close>, \<open>path\<close> and \<open>query\<close>, \<open>None\<close>
  until \<open>make_request\<close> assigns them, are empty here. The auth object's flag starts \<open>False\<close>,
  and nothing has happened in the world yet.
\<close>

definition new_request :: "string \<Rightarrow> string \<Rightarrow> string \<Rightarrow> sock \<Rightarrow> request" where
  "new_request m u p s =
     \<lparr>http_method = m, uri = u, port = p, auth = None, auth_attempted = False,
      auth_off_domain = False, data = PNone, params = PNone, headers = None,
      encoding = ''utf-8'', json = PNone, files = PNone, cookies = [], callback = False,
      stream = None, max_redirects = 20, sock = Some s, persist_cookies = False,
      history_objects = [], scheme = [], netloc = [], path = [], query = [],
      initial_scheme = None, initial_netloc = None, streaming = False,
      wire = [], sent = [], delivered = [], retired = [], stored = []\<rparr>"

section \<open>An environment for the examples\<close>

text \<open>
  A stand-in for \<open>urlparse\<close> that agrees with it on URLs of the shape
  \<open>scheme://authority/path?query#fragment\<close> and on paths such as \<open>/new/path?q=1\<close>, without
  \<open>;\<close> parameters; and for \<open>urlunparse\<close> on components with an authority.
\<close>

definition scheme_char :: "char \<Rightarrow> bool" where
  "scheme_char c = (is_alnum c \<or> c \<in> set ''+-.'')"

definition example_urlparse ::
  "string \<Rightarrow> string \<times> string \<times> string \<times> string \<times> string \<times> string" where
  "example_urlparse url =
     (let pre = takeWhile (\<lambda>c. c \<noteq> CHR '':'') url;
          has_scheme = (length pre < length url \<and> pre \<noteq> [] \<and> list_all scheme_char pre
                        \<and> is_alnum (hd pre) \<and> \<not> (of_char (hd pre) :: nat) \<le> 57);
          sch = (if has_scheme then py_lower pre else []);
          rest = (if has_scheme then drop (length pre + 1) url else url);
          has_netloc = (take 2 rest = ''//'');
          nl = (if has_netloc then takeWhile (\<lambda>c. c \<notin> set ''/?#'') (drop 2 rest) else []);
          rest2 = (if has_netloc then dropWhile (\<lambda>c. c \<notin> set ''/?#'') (drop 2 rest) else rest);
          before_fragment = takeWhile (\<lambda>c. c \<noteq> CHR ''#'') rest2;
          fragment = drop 1 (dropWhile (\<lambda>c. c \<noteq> CHR ''#'') rest2);
          pth = takeWhile (\<lambda>c. c \<noteq> CHR ''?'') before_fragment;
          qu = drop 1 (dropWhile (\<lambda>c. c \<noteq> CHR ''?'') before_fragment)
      in (sch, nl, pth, [], qu, fragment))"

definition example_urlunparse ::
  "string \<times> string \<times> string \<times> string \<times> string \<times> string \<Rightarrow> string" where
  "example_urlunparse c =
     (case c of (sch, nl, pth, prm, qu, fragment) \<Rightarrow>
        (let url0 = (if prm \<noteq> [] then pth @ '';'' @ prm else pth);
             url1 = (if nl \<noteq> [] then
                       ''//'' @ nl @ (if url0 \<noteq> [] \<and> hd url0 \<noteq> CHR ''/'' then ''/'' @ url0 else url0)
                     else url0);
             url2 = (if sch \<noteq> [] then sch @ '':'' @ url1 else url1);
             url3 = (if qu \<noteq> [] then url2 @ ''?'' @ qu else url2)
         in if fragment \<noteq> [] then url3 @ ''#'' @ fragment else url3))"

text \<open>\<open>mimetypes.guess_type\<close> on the three file names of the examples.\<close>

definition example_guess_type :: "string \<Rightarrow> string option \<times> string option" where
  "example_guess_type name =
     (if name = ''photo.png'' then (Some ''image/png'', None)
      else if name = ''notes.txt'' then (Some ''text/plain'', None)
      else if name = ''backup.tar.gz'' then (Some ''application/x-tar'', Some ''gzip'')
      else (None, None))"

text \<open>
  The codecs \<open>utf-8\<close>, \<open>ascii\<close> and \<open>latin-1\<close> on code points below 256; the registry of the
  examples knows no other name.
\<close>

definition utf8_char :: "char \<Rightarrow> string" where
  "utf8_char c =
     (if is_ascii c then [c]
      else [char_of (192 + (of_char c :: nat) div 64), char_of (128 + (of_char c :: nat) mod 64)])"

definition example_codecs :: codecs where
  "example_codecs name s =
     (if name = ''utf-8'' then Encoded (concat (map utf8_char s))
      else if name = ''ascii'' then (if list_all is_ascii s then Encoded s else Unencodable)
      else if name = ''latin-1'' then Encoded s
      else UnknownCodec)"

text \<open>
  One file exists; the auth objects return one \<open>Authorization\<close> header; there is no
  cookie tracker content; the session is a plain one and hands out sockets numbered after
  the ones it got back.
\<close>

definition example_env :: env where
  "example_env =
     \<lparr>BOUNDARY = ''8banana133744910kmmr13ay5fa564242'',
      fs = (\<lambda>p. if p = ''/tmp/photo.png'' then Some ''PNGDATA'' else None),
      fd_readable = (\<lambda>fd. False),
      guess_type = example_guess_type,
      json_dumps = (\<lambda>j. ''{}''),
      str_encode = example_codecs,
      urlparse = example_urlparse,
      urlunparse = example_urlunparse,
      pre_auth = (\<lambda>st. [(''Authorization'', ''Basic dXNlcjpwdw=='')]),
      post_auth = (\<lambda>r st. [(''Authorization'', ''Digest username=user'')]),
      get_additional_cookies = (\<lambda>jar nl p. []),
      parse_cookies = (\<lambda>nl r. []),
      guess_encoding = (\<lambda>r. resp_encoding r),
      is_DSession = False,
      grab_connection =
        (\<lambda>g given_back. (\<lparr>sock_id = Suc (length given_back), active = True, sock_port = ''80''\<rparr>,
                          ''80''))\<rparr>"

definition example_sock :: sock where
  "example_sock = \<lparr>sock_id = 0, active = True, sock_port = ''80''\<rparr>"


section \<open>Servers that always redirect\<close>








section \<open>The query/form codec and the multipart encoder on the claims' inputs\<close>

lemma split_ws_nonspace:
  "\<forall>c \<in> set cur. \<not> py_isspace c \<Longrightarrow> \<forall>w \<in> set (split_ws s cur). \<forall>c \<in> set w. \<not> py_isspace c"
proof (induction s arbitrary: cur)
  case Nil
  then show ?case by simp
next
  case (Cons a s)
  have nil: "\<forall>w \<in> set (split_ws s []). \<forall>c \<in> set w. \<not> py_isspace c"
    by (rule Cons.IH) simp
  show ?case
  proof (cases "py_isspace a")
    case True
    with nil Cons.prems show ?thesis by simp
  next
    case False
    with Cons.prems have "\<forall>c \<in> set (cur @ [a]). \<not> py_isspace c" by simp
    from Cons.IH [OF this] False show ?thesis by simp
  qed
qed

lemma py_join_chars:
  "\<forall>w \<in> set ws. \<forall>c \<in> set w. P c \<Longrightarrow> \<forall>c \<in> set sep. P c \<Longrightarrow> \<forall>c \<in> set (py_join sep ws). P c"
  by (induction sep ws rule: py_join.induct) auto

lemma plus_not_space: "\<not> py_isspace (CHR ''+'')"
  by (simp add: py_isspace_def)

lemma collapsed_no_space: "\<forall>c \<in> set (py_join ''+'' (py_split s)). \<not> py_isspace c"
  unfolding py_split_def
  by (rule py_join_chars) (use split_ws_nonspace [of "[]" s] plus_not_space in auto)

text \<open>The three laws of \<open>split\<close>: a run of non-whitespace is taken whole, whitespace before a
  word is dropped, and so is whitespace at the end.\<close>

lemma split_ws_word:
  "list_all (\<lambda>c. \<not> py_isspace c) w \<Longrightarrow> split_ws (w @ s) cur = split_ws s (cur @ w)"
  by (induction w arbitrary: cur) simp_all

lemma split_ws_gap:
  "list_all py_isspace g \<Longrightarrow> split_ws (g @ s) [] = split_ws s []"
  by (induction g) simp_all

lemma split_ws_gap_cur:
  "list_all py_isspace g \<Longrightarrow> g \<noteq> [] \<Longrightarrow> cur \<noteq> [] \<Longrightarrow> split_ws (g @ s) cur = cur # split_ws s []"
  by (cases g) (simp_all add: split_ws_gap)

lemma split_ws_trail:
  "list_all py_isspace trail \<Longrightarrow> cur \<noteq> [] \<Longrightarrow> split_ws trail cur = [cur]"
  using split_ws_gap_cur [of trail cur "[]"] by (cases trail) simp_all

lemma split_ws_words:
  "list_all (\<lambda>w. w \<noteq> [] \<and> list_all (\<lambda>c. \<not> py_isspace c) w) ws \<Longrightarrow>
   list_all py_isspace gap \<Longrightarrow> gap \<noteq> [] \<Longrightarrow> list_all py_isspace trail \<Longrightarrow>
   split_ws (py_join gap ws @ trail) [] = ws"
proof (induction gap ws rule: py_join.induct)
  case (1 sep)
  then show ?case using split_ws_gap [of trail "[]"] by simp
next
  case (2 sep x)
  then show ?case using split_ws_word [of x trail "[]"] split_ws_trail [of trail x] by simp
next
  case (3 sep x y ys)
  from 3 have x: "x \<noteq> []" "list_all (\<lambda>c. \<not> py_isspace c) x" by simp_all
  have "split_ws (x @ sep @ py_join sep (y # ys) @ trail) []
          = split_ws (sep @ py_join sep (y # ys) @ trail) x"
    using split_ws_word [OF x(2), of "sep @ py_join sep (y # ys) @ trail" "[]"] by simp
  also have "\<dots> = x # split_ws (py_join sep (y # ys) @ trail) []"
    using split_ws_gap_cur [of sep x] 3 x by simp
  finally show ?case using 3 by simp
qed

lemma py_split_padded:
  assumes "list_all (\<lambda>w. w \<noteq> [] \<and> list_all (\<lambda>c. \<not> py_isspace c) w) ws"
    and "list_all py_isspace gap" and "gap \<noteq> []"
    and "list_all py_isspace lead" and "list_all py_isspace trail"
  shows "py_split (lead @ py_join gap ws @ trail) = ws"
  unfolding py_split_def
  using split_ws_gap [OF assms(4), of "py_join gap ws @ trail"] split_ws_words [OF assms(1,2,3,5)]
  by simp

lemma collect_Inr: "collect (map Inr xs) = Inr xs"
  by (induction xs) simp_all

lemma collect_append:
  "collect xs = Inr ys \<Longrightarrow> collect xs' = Inr ys' \<Longrightarrow> collect (xs @ xs') = Inr (ys @ ys')"
  by (induction xs arbitrary: ys) (auto split: sum.splits)

lemma collect_append_error:
  "collect xs = Inl e \<Longrightarrow> collect (xs @ xs') = Inl e"
  by (induction xs) (auto split: sum.splits)


lemma split_ws_chars:
  "\<forall>c \<in> set cur. P c \<Longrightarrow> \<forall>c \<in> set s. P c \<Longrightarrow> \<forall>w \<in> set (split_ws s cur). \<forall>c \<in> set w. P c"
proof (induction s arbitrary: cur)
  case Nil
  then show ?case by simp
next
  case (Cons a s)
  from Cons.prems have rest: "\<forall>c \<in> set s. P c" by simp
  have nil: "\<forall>w \<in> set (split_ws s []). \<forall>c \<in> set w. P c"
    using Cons.IH [of "[]"] rest by simp
  show ?case
  proof (cases "py_isspace a")
    case True
    with nil Cons.prems show ?thesis by simp
  next
    case False
    from Cons.prems have "\<forall>c \<in> set (cur @ [a]). P c" by simp
    from Cons.IH [OF this rest] False show ?thesis by simp
  qed
qed

lemma ascii_collapsed:
  assumes "list_all is_ascii s"
  shows "list_all is_ascii (py_join ''+'' (py_split s))"
proof -
  have "\<forall>w \<in> set (split_ws s []). \<forall>c \<in> set w. is_ascii c"
    using assms by (intro split_ws_chars) (simp_all add: list_all_iff)
  moreover have "\<forall>c \<in> set ''+''. is_ascii c" by (simp add: is_ascii_def)
  ultimately have "\<forall>c \<in> set (py_join ''+'' (split_ws s [])). is_ascii c"
    by (rule py_join_chars)
  then show ?thesis by (simp add: py_split_def list_all_iff)
qed

lemma queryify_transparent:
  "codec name s = Encoded s \<Longrightarrow> queryify codec (Some name) s = Inr (quote s ''/=+?&'')"
  by (simp add: queryify_def py_encode_def)

lemma queryify_no_encoding: "queryify codec None s = Inl TypeError"
  by (simp add: queryify_def py_encode_def)

lemma collect_map_Inr:
  "\<forall>x \<in> set xs. f x = Inr (g x) \<Longrightarrow> collect (map f xs) = Inr (map g xs)"
  by (induction xs) simp_all

lemma scalar_branch:
  assumes "atom_truthy a"
  shows "item_query codec enc (k, Atom a)
           = collect [queryify codec enc (k @ ''='' @ py_join ''+'' (py_split (py_str a)))]"
  using assms by (cases a) simp_all

lemma dict_to_query_append:
  assumes "collect (map (item_query codec enc) items) = Inr ps"
    and "collect (map (item_query codec enc) items') = Inr ps'"
  shows "dict_to_query codec enc (PDict (items @ items')) False False
           = Inr (py_join ''&'' (concat ps @ concat ps'))"
  using collect_append [OF assms] by (simp add: dict_to_query_def)

text \<open>
  Claim C8. Under a request encoding that names an ASCII-compatible codec, the mapping
  \<open>{"a": "x y", "b": [1, 2]}\<close> encodes in form-body mode (\<open>params=False\<close>) to exactly
  \<open>a=x+y&b=1&b=2\<close>; under the constructor's default encoding \<open>None\<close> the same call raises
  \<open>TypeError\<close>. In general: the pairs of the items follow one another in the order of the
  items; a falsy value contributes no pair; a truthy scalar contributes the one pair
  \<open>key=text\<close>, where the text is \<open>str\<close> of the scalar with its words joined by \<open>+\<close>, and for
  a text made of words separated by any run of whitespace, with any whitespace before and
  after, these are the words joined by single \<open>+\<close>, so that the text holds no whitespace; a
  non-empty list contributes one such pair per element, in order and under the same key.
\<close>

theorem dict_to_query_form_body:
  assumes "\<And>s. list_all is_ascii s \<Longrightarrow> codec name s = Encoded s"
  shows
  "dict_to_query codec (Some name)
       (PDict [(''a'', Atom (AStr ''x y'')), (''b'', PList [AInt 1, AInt 2])]) False False
     = Inr ''a=x+y&b=1&b=2''
   \<and> dict_to_query codec None
         (PDict [(''a'', Atom (AStr ''x y'')), (''b'', PList [AInt 1, AInt 2])]) False False
       = Inl TypeError
   \<and> (collect (map (item_query codec enc) items) = Inr ps
        \<and> collect (map (item_query codec enc) items') = Inr ps' \<longrightarrow>
        dict_to_query codec enc (PDict (items @ items')) False False
          = Inr (py_join ''&'' (concat ps @ concat ps')))
   \<and> (\<not> truthy v \<longrightarrow> item_query codec enc (k, v) = Inr [])
   \<and> (atom_truthy a \<and> list_all is_ascii (k @ py_str a) \<longrightarrow>
        item_query codec (Some name) (k, Atom a)
          = Inr [quote (k @ ''='' @ py_join ''+'' (py_split (py_str a))) ''/=+?&''])
   \<and> (list_all (\<lambda>w. w \<noteq> [] \<and> list_all (\<lambda>c. \<not> py_isspace c) w) ws
        \<and> list_all py_isspace gap \<and> gap \<noteq> []
        \<and> list_all py_isspace lead \<and> list_all py_isspace trail \<longrightarrow>
        py_join ''+'' (py_split (lead @ py_join gap ws @ trail)) = py_join ''+'' ws)
   \<and> (elms \<noteq> [] \<and> list_all is_ascii k \<and> list_all (\<lambda>elm. list_all is_ascii (py_str elm)) elms \<longrightarrow>
        item_query codec (Some name) (k, PList elms)
          = Inr (map (\<lambda>elm. quote (k @ ''='' @ py_join ''+'' (py_split (py_str elm))) ''/=+?&'') elms))
   \<and> (\<forall>c \<in> set (py_join ''+'' (py_split s)). \<not> py_isspace c)"
proof -
  have example: "dict_to_query codec (Some name)
       (PDict [(''a'', Atom (AStr ''x y'')), (''b'', PList [AInt 1, AInt 2])]) False False
     = Inr ''a=x+y&b=1&b=2''"
    by (simp add: dict_to_query_def queryify_def py_encode_def assms is_ascii_def quote_def
          always_safe_def is_alnum_def py_split_def py_isspace_def str_int_def digits.simps
          percent_def)
  have no_encoding: "dict_to_query codec None
         (PDict [(''a'', Atom (AStr ''x y'')), (''b'', PList [AInt 1, AInt 2])]) False False
       = Inl TypeError"
    by (simp add: dict_to_query_def queryify_no_encoding)
  have scalar: "item_query codec (Some name) (k, Atom a)
          = Inr [quote (k @ ''='' @ py_join ''+'' (py_split (py_str a))) ''/=+?&'']"
    if "atom_truthy a" "list_all is_ascii (k @ py_str a)"
  proof -
    from that(2) have "list_all is_ascii (k @ ''='' @ py_join ''+'' (py_split (py_str a)))"
      using ascii_collapsed [of "py_str a"] by (simp add: is_ascii_def)
    from assms [OF this] scalar_branch [OF that(1), of codec "Some name" k]
    show ?thesis by (simp add: queryify_transparent)
  qed
  have elements: "item_query codec (Some name) (k, PList elms)
          = Inr (map (\<lambda>elm. quote (k @ ''='' @ py_join ''+'' (py_split (py_str elm))) ''/=+?&'') elms)"
    if "elms \<noteq> []" "list_all is_ascii k" "list_all (\<lambda>elm. list_all is_ascii (py_str elm)) elms"
  proof -
    have "queryify codec (Some name) (k @ ''='' @ py_join ''+'' (py_split (py_str elm)))
            = Inr (quote (k @ ''='' @ py_join ''+'' (py_split (py_str elm))) ''/=+?&'')"
      if "elm \<in> set elms" for elm
    proof -
      from that \<open>list_all (\<lambda>elm. list_all is_ascii (py_str elm)) elms\<close>
      have "list_all is_ascii (py_str elm)" by (simp add: list_all_iff)
      with \<open>list_all is_ascii k\<close>
      have "list_all is_ascii (k @ ''='' @ py_join ''+'' (py_split (py_str elm)))"
        using ascii_collapsed [of "py_str elm"] by (simp add: is_ascii_def)
      from assms [OF this] show ?thesis by (simp add: queryify_transparent)
    qed
    then have "collect (map (\<lambda>elm. queryify codec (Some name)
                               (k @ ''='' @ py_join ''+'' (py_split (py_str elm)))) elms)
                 = Inr (map (\<lambda>elm. quote (k @ ''='' @ py_join ''+'' (py_split (py_str elm)))
                                       ''/=+?&'') elms)"
      by (intro collect_map_Inr) simp
    with that(1) show ?thesis by simp
  qed
  show ?thesis
    using example no_encoding dict_to_query_append [of codec enc items ps items' ps']
      scalar elements py_split_padded [of ws gap lead trail] collapsed_no_space [of s]
    by simp
qed

lemma example_codecs_ascii: "list_all is_ascii s \<Longrightarrow> example_codecs ''utf-8'' s = Encoded s"
  by (induction s) (simp_all add: example_codecs_def utf8_char_def)

text \<open>
  The general part of C8 under \<open>utf-8\<close>, at a mapping with a falsy value and a list, and at
  scalars whose words are two blanks, or a tab and a blank, apart.
\<close>

theorem dict_to_query_form_body_witness:
  "dict_to_query example_codecs (Some ''utf-8'')
       (PDict ([(''z'', Atom (AStr []))] @ [(''b'', PList [AInt 1, AInt 2])])) False False
     = Inr ''b=1&b=2''
   \<and> item_query example_codecs (Some ''utf-8'') (''z'', Atom (AStr [])) = Inr []
   \<and> item_query example_codecs (Some ''utf-8'') (''a'', Atom (AStr ''x  y'')) = Inr [''a=x+y'']
   \<and> py_join ''+'' (py_split (''  '' @ py_join [CHR 0x09, CHR '' ''] [''x'', ''y'', ''z''] @ '' ''))
       = ''x+y+z''
   \<and> item_query example_codecs (Some ''utf-8'') (''b'', PList [AInt 1, AInt 2])
       = Inr [''b=1'', ''b=2'']
   \<and> py_join ''+'' (py_split ''x  y'') = ''x+y''
   \<and> \<not> py_isspace (CHR ''x'') \<and> \<not> py_isspace (CHR ''+'') \<and> \<not> py_isspace (CHR ''y'')"
  using dict_to_query_form_body [where codec = example_codecs and name = "''utf-8''"
            and enc = "Some ''utf-8''" and items = "[(''z'', Atom (AStr []))]"
            and items' = "[(''b'', PList [AInt 1, AInt 2])]" and ps = "[[]]"
            and ps' = "[[''b=1'', ''b=2'']]" and v = "Atom (AStr [])" and k = "''b''"
            and a = "AStr ''x  y''" and ws = "[''x'', ''y'', ''z'']"
            and gap = "[CHR 0x09, CHR '' '']" and lead = "''  ''" and trail = "'' ''"
            and elms = "[AInt 1, AInt 2]" and s = "''x  y''", OF example_codecs_ascii]
  by (simp add: queryify_def py_encode_def example_codecs_def utf8_char_def is_ascii_def quote_def
        always_safe_def is_alnum_def py_split_def py_isspace_def str_int_def digits.simps
        percent_def)

text \<open>
  Claim C7, at the input where the code departs from it. The file \<open>/tmp/photo.png\<close> exists
  and \<open>guess_type\<close> knows its type, \<open>image/png\<close>; the part carries the name and the basename
  as \<open>filename\<close>, but its content type is \<open>application/octet-stream\<close>: line 464 tests the
  encoding component of the guess, which is \<open>None\<close> for every file that is not compressed.
\<close>

theorem multipart_png_is_octet_stream:
  "guess_type example_env (basename ''/tmp/photo.png'') = (Some ''image/png'', None)
   \<and> multipart example_env [(''f'', Atom (AStr ''/tmp/photo.png''))]
       = Inr (''--8banana133744910kmmr13ay5fa564242'' @ CRLF
              @ ''Content-Disposition: form-data; name=\"f\"; filename=\"photo.png\"''
              @ ''; Content-Type: application/octet-stream'' @ CRLF @ CRLF
              @ ''PNGDATA'' @ CRLF
              @ ''--8banana133744910kmmr13ay5fa564242--'' @ CRLF)"
  by (simp add: multipart_def multipart_part_def mime_type_of_def example_env_def
        example_guess_type_def basename_def py_split_on_def hder_format_def hder_format_io_def)



section \<open>Evaluating the model\<close>

lemma make_request_numeral [simp]:
  "make_request env (numeral k) = make_request_body env (make_request env (pred_numeral k) False)"
  by (simp add: numeral_eq_Suc)

lemma new_request_sel [simp]:
  "http_method (new_request m u p s) = m" "uri (new_request m u p s) = u"
  "port (new_request m u p s) = p" "auth (new_request m u p s) = None"
  "auth_attempted (new_request m u p s) = False" "auth_off_domain (new_request m u p s) = False"
  "data (new_request m u p s) = PNone" "params (new_request m u p s) = PNone"
  "headers (new_request m u p s) = None" "encoding (new_request m u p s) = ''utf-8''"
  "json (new_request m u p s) = PNone" "files (new_request m u p s) = PNone"
  "cookies (new_request m u p s) = []" "callback (new_request m u p s) = False"
  "stream (new_request m u p s) = None" "max_redirects (new_request m u p s) = 20"
  "sock (new_request m u p s) = Some s" "persist_cookies (new_request m u p s) = False"
  "history_objects (new_request m u p s) = []" "scheme (new_request m u p s) = []"
  "netloc (new_request m u p s) = []" "path (new_request m u p s) = []"
  "query (new_request m u p s) = []" "initial_scheme (new_request m u p s) = None"
  "initial_netloc (new_request m u p s) = None" "streaming (new_request m u p s) = False"
  "wire (new_request m u p s) = []" "sent (new_request m u p s) = []"
  "delivered (new_request m u p s) = []" "retired (new_request m u p s) = []"
  "stored (new_request m u p s) = []"
  by (simp_all add: new_request_def)

lemma example_env_sel [simp]:
  "BOUNDARY example_env = ''8banana133744910kmmr13ay5fa564242''"
  "guess_type example_env = example_guess_type" "str_encode example_env = example_codecs"
  "urlparse example_env = example_urlparse" "urlunparse example_env = example_urlunparse"
  "pre_auth example_env = (\<lambda>st. [(''Authorization'', ''Basic dXNlcjpwdw=='')])"
  "post_auth example_env = (\<lambda>r st. [(''Authorization'', ''Digest username=user'')])"
  "get_additional_cookies example_env = (\<lambda>jar nl p. [])"
  "parse_cookies example_env = (\<lambda>nl r. [])"
  "guess_encoding example_env = (\<lambda>r. resp_encoding r)" "is_DSession example_env = False"
  "grab_connection example_env =
     (\<lambda>g given_back. (\<lparr>sock_id = Suc (length given_back), active = True, sock_port = ''80''\<rparr>,
                       ''80''))"
  by (simp_all add: example_env_def)

lemma default_headers_eval [simp]:
  "c_i_dict [(''Host'', h), (''Connection'', ''keep-alive''),
             (''Accept-Encoding'', ''gzip, deflate''), (''Accept'', ''*/*''),
             (''Content-Length'', ''0''), (''User-Agent'', ''python-asks/0.0.1'')]
   = [(''host'', ''Host'', h), (''connection'', ''Connection'', ''keep-alive''),
      (''accept-encoding'', ''Accept-Encoding'', ''gzip, deflate''),
      (''accept'', ''Accept'', ''*/*''), (''content-length'', ''Content-Length'', ''0''),
      (''user-agent'', ''User-Agent'', ''python-asks/0.0.1'')]"
  by (simp add: c_i_dict_def ci_update_def py_lower_def lower_char_def)

lemmas consumer_defs = catch_response_def recv_event_def response_headers_def add_set_cookie_def
  body_expected_def ci_get_def c_i_dict_def ci_update_def py_lower_def lower_char_def
  py_int_def py_strip_def py_isspace_def body_callback_def stream_sock_def

lemmas exchange_defs = consumer_defs example_sock_def example_urlparse_def
  example_urlunparse_def scheme_char_def is_alnum_def prepare_def parse_uri_def
  default_headers_def inject_cookies_def body_headers_def custom_and_auth_headers_def
  cookie_header_def finish_def
  make_request_body_def request_io_def send_def ci_items_def build_path_def redirect_def
  redirect_target_def redirect_location_def redirect_bookkeeping_def
  get_new_sock_def auth_handler_post_check_retry_def
  auth_handler_pre_def auth_handler_post_get_auth_def cookie_str_def coroutine_truthy_def
  str_int_def digits.simps

section \<open>The response consumer on the claims' inputs\<close>

text \<open>
  Claim C6, at inputs where the code departs from it. A response with neither a
  \<open>Content-Length\<close> nor a \<open>Transfer-Encoding\<close> header (a 204 with only a \<open>Server\<close> header, a
  304 with no header at all) makes \<open>_catch_response\<close> raise \<open>KeyError\<close>: the lookup of
  \<open>transfer-encoding\<close> stands inside the handler of the first \<open>KeyError\<close> and is not
  guarded itself. No end-of-message event is consumed and no response is returned.
\<close>

theorem catch_response_without_length_or_encoding:
  "fst (catch_response ((new_request ''GET'' ''http://a.example/'' ''80'' example_sock)
          \<lparr>wire := [EvResponse 204 [(''server'', ''x'')] ''No Content'' ''1.1'', EvEndOfMessage]\<rparr>))
     = Inl KeyError
   \<and> fst (catch_response ((new_request ''GET'' ''http://a.example/'' ''80'' example_sock)
          \<lparr>wire := [EvResponse 304 [] ''Not Modified'' ''1.1'', EvEndOfMessage]\<rparr>))
     = Inl KeyError"
  by (simp add: consumer_defs cong: let_weak_cong prod.case_cong_weak)

text \<open>
  Claim C5, at the input where the code departs from it. With \<open>stream\<close> set and no
  callback, a 404 whose \<open>Content-Length\<close> is 5 is returned with an empty body, and its
  body chunk and end of message are left unread on the connection; the \<open>else\<close> of line 547
  belongs to the test of \<open>self.stream\<close>, not to the test of the status code. Without
  \<open>stream\<close> the same response is buffered: the body is \<open>hello\<close> and nothing is left.
\<close>

theorem catch_response_stream_404:
  "catch_response ((new_request ''GET'' ''http://a.example/'' ''80'' example_sock)
      \<lparr>stream := Some True,
       wire := [EvResponse 404 [(''content-length'', ''5'')] ''Not Found'' ''1.1'',
                EvData ''hello'', EvEndOfMessage]\<rparr>)
     = (Inr (Response ''utf-8'' ''GET'' 404 ''Not Found'' ''1.1''
               [(''content-length'', ''content-length'', HStr ''5'')] (Bytes []) [] []),
        (new_request ''GET'' ''http://a.example/'' ''80'' example_sock)
          \<lparr>stream := Some True, wire := [EvData ''hello'', EvEndOfMessage]\<rparr>)
   \<and> catch_response ((new_request ''GET'' ''http://a.example/'' ''80'' example_sock)
      \<lparr>wire := [EvResponse 404 [(''content-length'', ''5'')] ''Not Found'' ''1.1'',
                EvData ''hello'', EvEndOfMessage]\<rparr>)
     = (Inr (Response ''utf-8'' ''GET'' 404 ''Not Found'' ''1.1''
               [(''content-length'', ''content-length'', HStr ''5'')] (Bytes ''hello'') [] []),
        (new_request ''GET'' ''http://a.example/'' ''80'' example_sock)\<lparr>wire := []\<rparr>)"
  by (simp add: consumer_defs cong: let_weak_cong prod.case_cong_weak)

section \<open>The orchestrator on the claims' inputs\<close>

text \<open>
  Claim C9, at the input where the code departs from it. For the cookies \<open>a\<close>: 1 and
  \<open>b\<close>: 2 the request carries one \<open>Cookie\<close> header, whose value is \<open>a=1; b=2;\<close>: the slice
  \<open>cookie_str[:-1]\<close> drops the last character of the two-character separator, the space,
  and leaves the semicolon.
\<close>

theorem cookie_header_keeps_semicolon:
  "fst (prepare example_env False
          ((new_request ''GET'' ''http://a.example/'' ''80'' example_sock)
             \<lparr>cookies := [(''a'', AInt 1), (''b'', AInt 2)]\<rparr>))
     = Inr (\<lparr>req_method = ''GET'', target = ''/'',
             req_headers =
               [(''Host'', ''a.example''), (''Connection'', ''keep-alive''),
                (''Accept-Encoding'', ''gzip, deflate''), (''Accept'', ''*/*''),
                (''Content-Length'', ''0''), (''User-Agent'', ''python-asks/0.0.1''),
                (''Cookie'', ''a=1; b=2;'')]\<rparr>,
            None)"
  by (simp add: exchange_defs cong: let_weak_cong prod.case_cong_weak;
      simp add: exchange_defs Let_def cong: let_weak_cong prod.case_cong_weak)

text \<open>
  Claim C1, at the input where the code departs from it. A request to
  \<open>http://a.example/\<close> is answered by a 302 to \<open>http://b.example/x\<close> and then by a 200. The
  first attempt records the initial authority \<open>a.example\<close>; the re-issue, which \<open>_redirect\<close>
  makes by \<open>self.make_request()\<close> with the default \<open>redirect=False\<close>, records it anew, and
  the exchange ends with the initial authority \<open>b.example\<close>.
\<close>

theorem redirect_overwrites_initial_netloc:
  "initial_netloc (snd (prepare example_env False
      ((new_request ''GET'' ''http://a.example/'' ''80'' example_sock)
         \<lparr>wire := [EvResponse 302 [(''location'', ''http://b.example/x''), (''content-length'', ''0'')]
                     ''Found'' ''1.1'', EvEndOfMessage,
                   EvResponse 200 [(''content-length'', ''2'')] ''OK'' ''1.1'',
                     EvData ''hi'', EvEndOfMessage]\<rparr>)))
     = Some ''a.example''
   \<and> (case make_request example_env 2 False
      ((new_request ''GET'' ''http://a.example/'' ''80'' example_sock)
         \<lparr>wire := [EvResponse 302 [(''location'', ''http://b.example/x''), (''content-length'', ''0'')]
                     ''Found'' ''1.1'', EvEndOfMessage,
                   EvResponse 200 [(''content-length'', ''2'')] ''OK'' ''1.1'',
                     EvData ''hi'', EvEndOfMessage]\<rparr>) of
        (res, st') \<Rightarrow>
          res = Inr (Some \<lparr>sock_id = Suc (Suc 0), active = True, sock_port = ''80''\<rparr>,
                     Response ''utf-8'' ''GET'' 200 ''OK'' ''1.1''
                       [(''content-length'', ''content-length'', HStr ''2'')] (Bytes ''hi'')
                       [Response ''utf-8'' ''GET'' 302 ''Found'' ''1.1''
                          [(''location'', ''location'', HStr ''http://b.example/x''),
                           (''content-length'', ''content-length'', HStr ''0'')]
                          (Bytes []) [] []]
                       [])
          \<and> initial_scheme st' = Some ''http''
          \<and> initial_netloc st' = Some ''b.example''
          \<and> length (sent st') = 2)"
  by (simp add: exchange_defs cong: let_weak_cong prod.case_cong_weak;
      simp add: exchange_defs Let_def cong: let_weak_cong prod.case_cong_weak)

text \<open>
  Claim C2, at the input where the code departs from it. A pre-response auth strategy is
  set and \<open>auth_off_domain\<close> is not; the request to \<open>http://www.a.example/\<close> is answered by
  a 302 to \<open>http://www.b.example/x\<close>, another base domain. The body of
  \<open>_location_auth_protect\<close> would return \<open>None\<close>, but it is never run: the redirect is
  followed, a second request goes to \<open>www.b.example\<close> with the \<open>Authorization\<close> header, and
  the response returned is the 200 of that host, not the 302.
\<close>

theorem cross_domain_redirect_is_followed_with_auth:
  "location_auth_protect example_env
      ((new_request ''GET'' ''http://www.a.example/'' ''80'' example_sock)
         \<lparr>scheme := ''http'', netloc := ''www.a.example''\<rparr>)
      ''http://www.b.example/x'' = Inr None
   \<and> (case make_request example_env 2 False
      ((new_request ''GET'' ''http://www.a.example/'' ''80'' example_sock)
         \<lparr>auth := Some PreResponseAuth,
          wire := [EvResponse 302 [(''location'', ''http://www.b.example/x''),
                                   (''content-length'', ''0'')] ''Found'' ''1.1'', EvEndOfMessage,
                   EvResponse 200 [(''content-length'', ''2'')] ''OK'' ''1.1'',
                     EvData ''hi'', EvEndOfMessage]\<rparr>) of
        (res, st') \<Rightarrow>
          res = Inr (Some \<lparr>sock_id = Suc (Suc 0), active = True, sock_port = ''80''\<rparr>,
                     Response ''utf-8'' ''GET'' 200 ''OK'' ''1.1''
                       [(''content-length'', ''content-length'', HStr ''2'')] (Bytes ''hi'')
                       [Response ''utf-8'' ''GET'' 302 ''Found'' ''1.1''
                          [(''location'', ''location'', HStr ''http://www.b.example/x''),
                           (''content-length'', ''content-length'', HStr ''0'')]
                          (Bytes []) [] []]
                       [])
          \<and> map (\<lambda>r. (target (fst r), req_headers (fst r))) (sent st')
              = [(''/'',
                  [(''Host'', ''www.a.example''), (''Connection'', ''keep-alive''),
                   (''Accept-Encoding'', ''gzip, deflate''), (''Accept'', ''*/*''),
                   (''Content-Length'', ''0''), (''User-Agent'', ''python-asks/0.0.1''),
                   (''Authorization'', ''Basic dXNlcjpwdw=='')]),
                 (''/x'',
                  [(''Host'', ''www.b.example''), (''Connection'', ''keep-alive''),
                   (''Accept-Encoding'', ''gzip, deflate''), (''Accept'', ''*/*''),
                   (''Content-Length'', ''0''), (''User-Agent'', ''python-asks/0.0.1''),
                   (''Authorization'', ''Basic dXNlcjpwdw=='')])])"
  by (simp add: exchange_defs location_auth_protect_def sans_port_wwx_def wwx_match_def
        py_split_on_def last_two_def cong: let_weak_cong prod.case_cong_weak;
      simp add: exchange_defs Let_def cong: let_weak_cong prod.case_cong_weak)

text \<open>
  Claim C3, at the input where the code departs from it. With a post-response auth
  strategy and a server that answers 401 twice, exactly two requests are sent, the second
  with the \<open>Authorization\<close> header, and the history holds the first 401; but the caller
  gets no response: \<open>_auth_handler_post_check_retry\<close> returns the pair that the nested
  \<open>make_request\<close> returned, and reading \<open>status_code\<close> of that pair in \<open>_redirect\<close> raises
  \<open>AttributeError\<close>. For a \<open>HEAD\<close> request the assignment of \<open>history\<close> to the pair raises
  it.
\<close>

theorem auth_retry_raises_attribute_error:
  "(case make_request example_env 2 False
      ((new_request ''GET'' ''http://a.example/'' ''80'' example_sock)
         \<lparr>auth := Some PostResponseAuth,
          wire := [EvResponse 401 [(''content-length'', ''0'')] ''Unauthorized'' ''1.1'',
                     EvEndOfMessage,
                   EvResponse 401 [(''content-length'', ''0'')] ''Unauthorized'' ''1.1'',
                     EvEndOfMessage]\<rparr>) of
        (res, st') \<Rightarrow>
          res = Inl AttributeError
          \<and> map (\<lambda>r. map fst (req_headers (fst r))) (sent st')
              = [[''Host'', ''Connection'', ''Accept-Encoding'', ''Accept'', ''Content-Length'',
                  ''User-Agent''],
                 [''Host'', ''Connection'', ''Accept-Encoding'', ''Accept'', ''Content-Length'',
                  ''User-Agent'', ''Authorization'']]
          \<and> map status_code (history_objects st') = [401]
          \<and> wire st' = [])
   \<and> fst (make_request example_env 2 False
      ((new_request ''HEAD'' ''http://a.example/'' ''80'' example_sock)
         \<lparr>auth := Some PostResponseAuth,
          wire := [EvResponse 401 [(''content-length'', ''0'')] ''Unauthorized'' ''1.1'',
                     EvEndOfMessage,
                   EvResponse 401 [(''content-length'', ''0'')] ''Unauthorized'' ''1.1'',
                     EvEndOfMessage]\<rparr>))
     = Inl AttributeError"
  by (simp add: exchange_defs cong: let_weak_cong prod.case_cong_weak;
      simp add: exchange_defs Let_def cong: let_weak_cong prod.case_cong_weak)

lemma finish_conn:
  "finish redirect_arg response_obj st6 = (Inr (conn, r), st')
   \<Longrightarrow> conn = (if streaming st' then None else sock st')"
  by (auto simp: finish_def split: if_splits option.splits)

text \<open>
  Claim C10. Whenever \<open>make_request\<close> returns, it returns a pair whose connection
  component is \<open>None\<close> if the streaming flag is set at that moment, and the request's
  current socket otherwise.
\<close>

theorem make_request_returns_connection:
  "make_request env fuel redirect_arg st = (Inr (conn, response_obj), st')
   \<Longrightarrow> conn = (if streaming st' then None else sock st')"
  by (cases fuel)
     (auto simp: make_request_body_def split: prod.splits sum.splits dest: finish_conn)

text \<open>C10 on two completed exchanges: a buffered 200 returns the socket, a streamed 200
  returns \<open>None\<close>.\<close>

theorem make_request_returns_connection_witness:
  "(\<exists>st'. make_request example_env 1 False
       ((new_request ''GET'' ''http://a.example/'' ''80'' example_sock)
          \<lparr>wire := [EvResponse 200 [(''content-length'', ''2'')] ''OK'' ''1.1'',
                    EvData ''hi'', EvEndOfMessage]\<rparr>)
      = (Inr (Some example_sock,
              Response ''utf-8'' ''GET'' 200 ''OK'' ''1.1''
                [(''content-length'', ''content-length'', HStr ''2'')] (Bytes ''hi'') [] []),
         st')
      \<and> \<not> streaming st' \<and> sock st' = Some example_sock)
   \<and> (\<exists>st'. make_request example_env 1 False
       ((new_request ''GET'' ''http://a.example/'' ''80'' example_sock)
          \<lparr>stream := Some True,
           wire := [EvResponse 200 [(''content-length'', ''2'')] ''OK'' ''1.1'',
                    EvData ''hi'', EvEndOfMessage]\<rparr>)
      = (Inr (None,
              Response ''utf-8'' ''GET'' 200 ''OK'' ''1.1''
                [(''content-length'', ''content-length'', HStr ''2'')]
                (StreamBody (Some example_sock)) [] []),
         st')
      \<and> streaming st')"
proof -
  let ?buffered = "make_request example_env 1 False
       ((new_request ''GET'' ''http://a.example/'' ''80'' example_sock)
          \<lparr>wire := [EvResponse 200 [(''content-length'', ''2'')] ''OK'' ''1.1'',
                    EvData ''hi'', EvEndOfMessage]\<rparr>)"
  let ?streamed = "make_request example_env 1 False
       ((new_request ''GET'' ''http://a.example/'' ''80'' example_sock)
          \<lparr>stream := Some True,
           wire := [EvResponse 200 [(''content-length'', ''2'')] ''OK'' ''1.1'',
                    EvData ''hi'', EvEndOfMessage]\<rparr>)"
  have b: "(case ?buffered of (res, st') \<Rightarrow>
              res = Inr (Some example_sock,
                Response ''utf-8'' ''GET'' 200 ''OK'' ''1.1''
                  [(''content-length'', ''content-length'', HStr ''2'')] (Bytes ''hi'') [] [])
              \<and> sock st' = Some example_sock)"
    by (simp add: exchange_defs cong: let_weak_cong prod.case_cong_weak;
      simp add: exchange_defs Let_def cong: let_weak_cong prod.case_cong_weak)
  have s: "(case ?streamed of (res, st') \<Rightarrow>
              res = Inr (None,
                Response ''utf-8'' ''GET'' 200 ''OK'' ''1.1''
                  [(''content-length'', ''content-length'', HStr ''2'')]
                  (StreamBody (Some example_sock)) [] [])
              \<and> sock st' = Some example_sock)"
    by (simp add: exchange_defs cong: let_weak_cong prod.case_cong_weak;
      simp add: exchange_defs Let_def cong: let_weak_cong prod.case_cong_weak)
  obtain st1 where b1: "?buffered = (Inr (Some example_sock,
                Response ''utf-8'' ''GET'' 200 ''OK'' ''1.1''
                  [(''content-length'', ''content-length'', HStr ''2'')] (Bytes ''hi'') [] []), st1)"
      and b2: "sock st1 = Some example_sock"
    using b by (cases ?buffered) simp
  obtain st2 where s1: "?streamed = (Inr (None,
                Response ''utf-8'' ''GET'' 200 ''OK'' ''1.1''
                  [(''content-length'', ''content-length'', HStr ''2'')]
                  (StreamBody (Some example_sock)) [] []), st2)"
      and s2: "sock st2 = Some example_sock"
    using s by (cases ?streamed) simp
  from make_request_returns_connection [OF b1] b2 have "\<not> streaming st1"
    by (simp split: if_splits)
  moreover from make_request_returns_connection [OF s1] s2 have "streaming st2"
    by (simp split: if_splits)
  ultimately show ?thesis using b1 b2 s1 by blast
qed


section \<open>Exhausting the redirect budget\<close>

subsection \<open>Only \<open>set-cookie\<close> holds a list of values\<close>






subsection \<open>One attempt of a ready request\<close>

lemma set_cookies_sel [simp]:
  "status_code (set_cookies ck r) = status_code r" "resp_headers (set_cookies ck r) = resp_headers r"
  by (cases r; simp)+

lemma set_encoding_sel [simp]:
  "status_code (set_encoding e r) = status_code r" "resp_headers (set_encoding e r) = resp_headers r"
  by (cases r; simp)+


















subsection \<open>The run\<close>




end
